theory Spec2Isabelle
  imports Main "HOL-Library.Sublist"
begin

section \<open>Python values used by django\_openpay\<close>

text \<open>
  Exceptions are values.  The first three are the classes of the package's
  \<^verbatim>\<open>exceptions\<close> module that \<^verbatim>\<open>models.py\<close> raises; the others are the Python and
  Django exceptions that the modelled statements can raise: \<open>RelatedObjectDoesNotExist\<close>
  is what Django raises when a foreign key that is not set is read.  \<open>LibraryError\<close> stands
  for whatever the payment SDK or a Django helper raises on its own account.
\<close>

datatype error =
    OpenpayObjectDoesNotExist
  | OpenpayNoCustomer
  | OpenpayNoCard
  | NotImplementedError
  | RelatedObjectDoesNotExist
  | AttributeError string
  | TypeError string
  | ValidationError
  | InvalidOperation
  | DoesNotExist
  | MultipleObjectsReturned
  | LibraryError string

datatype pyval = PyStr string | PyInt int | PyNone

datatype date = Date int int int

datatype datetime = Datetime date int int int int "int option"

subsection \<open>Slices and \<^verbatim>\<open>str.strip\<close>\<close>

text \<open>\<^verbatim>\<open>s[-n:]\<close>: the last \<open>n\<close> characters, the whole string when it is shorter.\<close>

definition last_chars :: "nat \<Rightarrow> string \<Rightarrow> string" where
  "last_chars n s = drop (length s - n) s"

text \<open>The characters below 256 for which \<^verbatim>\<open>str.isspace\<close> holds.\<close>

definition is_space :: "char \<Rightarrow> bool" where
  "is_space c = ((of_char c :: nat) \<in> {9, 10, 11, 12, 13, 28, 29, 30, 31, 32, 133, 160})"

definition strip :: "string \<Rightarrow> string" where
  "strip s = rev (dropWhile is_space (rev (dropWhile is_space s)))"

text \<open>Text that \<^verbatim>\<open>strip()\<close> and \<^verbatim>\<open>replace("_", "")\<close> leave as it is.\<close>

definition plain :: "string \<Rightarrow> bool" where
  "plain s = (\<forall>c\<in>set s. \<not> is_space c \<and> c \<noteq> CHR ''_'')"

subsection \<open>Decimal digits\<close>

definition is_digit :: "char \<Rightarrow> bool" where
  "is_digit c = (48 \<le> (of_char c :: nat) \<and> (of_char c :: nat) \<le> 57)"

definition digit_val :: "char \<Rightarrow> nat" where
  "digit_val c = of_char c - 48"

definition digit_char :: "nat \<Rightarrow> char" where
  "digit_char n = char_of (48 + n)"

text \<open>\<^verbatim>\<open>str(n)\<close> for a natural number.\<close>

fun str_nat :: "nat \<Rightarrow> string" where
  "str_nat n = (if n < 10 then [digit_char n] else str_nat (n div 10) @ [digit_char (n mod 10)])"

declare str_nat.simps [simp del]

text \<open>\<^verbatim>\<open>int(s)\<close> for a string of digits.\<close>

definition int_of_digits :: "string \<Rightarrow> nat" where
  "int_of_digits s = foldl (\<lambda>a c. 10 * a + digit_val c) 0 s"

text \<open>\<^verbatim>\<open>"%+d" % k\<close>.\<close>

definition str_signed :: "int \<Rightarrow> string" where
  "str_signed k = (if k < 0 then ''-'' else ''+'') @ str_nat (nat \<bar>k\<bar>)"

definition ascii_lower :: "char \<Rightarrow> char" where
  "ascii_lower c =
     (if 65 \<le> (of_char c :: nat) \<and> (of_char c :: nat) \<le> 90 then char_of (of_char c + (32::nat)) else c)"

subsection \<open>\<^verbatim>\<open>decimal.Decimal\<close>\<close>

text \<open>
  A \<^verbatim>\<open>Decimal\<close> is a sign, a coefficient and an exponent (\<^verbatim>\<open>_sign\<close>, \<^verbatim>\<open>_int\<close>, \<^verbatim>\<open>_exp\<close>), or
  an infinity, or a quiet or signalling NaN with a payload.  The coefficient string
  \<^verbatim>\<open>_int\<close> is always \<^verbatim>\<open>str\<close> of a non-negative integer, so it is kept as that integer; the
  empty payload of a NaN is \<open>0\<close>.  Exponents are unbounded, as in the reference
  implementation of the module.
\<close>

datatype Decimal = Finite bool nat int | Infinity bool | NaN bool bool nat

text \<open>\<^verbatim>\<open>Decimal.__str__\<close> (scientific notation, default context: capital \<^verbatim>\<open>E\<close>).\<close>

definition str_sign :: "bool \<Rightarrow> string" where
  "str_sign neg = (if neg then ''-'' else [])"

fun str_Decimal :: "Decimal \<Rightarrow> string" where
  "str_Decimal (Infinity neg) = str_sign neg @ ''Infinity''"
| "str_Decimal (NaN neg signal diag) =
     str_sign neg @ (if signal then ''sNaN'' else ''NaN'') @ (if diag = 0 then [] else str_nat diag)"
| "str_Decimal (Finite neg coeff e) =
     (let ds = str_nat coeff;
          leftdigits = e + int (length ds);
          dotplace = (if e \<le> 0 \<and> leftdigits > - 6 then leftdigits else 1);
          intpart = (if dotplace \<le> 0 then ''0''
                     else if dotplace \<ge> int (length ds)
                       then ds @ replicate (nat (dotplace - int (length ds))) CHR ''0''
                     else take (nat dotplace) ds);
          fracpart = (if dotplace \<le> 0 then ''.'' @ replicate (nat (- dotplace)) CHR ''0'' @ ds
                      else if dotplace \<ge> int (length ds) then []
                      else ''.'' @ drop (nat dotplace) ds);
          exppart = (if leftdigits = dotplace then [] else ''E'' @ str_signed (leftdigits - dotplace))
      in str_sign neg @ intpart @ fracpart @ exppart)"

declare str_Decimal.simps [simp del]

text \<open>
  \<^verbatim>\<open>Decimal(value)\<close> for a string.  The module matches
  \<^verbatim>\<open>value.strip().replace("_", "")\<close> against
  \<^verbatim>\<open>[-+]? ( (?=\d|\.\d) \d* (\.\d*)? (E[-+]?\d+)? | Inf(inity)? | s?NaN\d* ) \Z\<close>,
  ignoring case.  \<open>split_sign\<close> is the optional sign; \<open>match_number\<close> is the
  first alternative and returns the groups \<^verbatim>\<open>int\<close>, \<^verbatim>\<open>frac\<close> (empty when absent) and the
  value of \<^verbatim>\<open>exp\<close> (0 when absent); \<open>match_nan\<close> is the third, on the lower-cased text.
\<close>

definition split_sign :: "string \<Rightarrow> bool \<times> string" where
  "split_sign s =
     (case s of
        [] \<Rightarrow> (False, s)
      | c # t \<Rightarrow> if c = CHR ''-'' then (True, t) else if c = CHR ''+'' then (False, t) else (False, s))"

definition lookahead_number :: "string \<Rightarrow> bool" where
  "lookahead_number s =
     (case s of
        [] \<Rightarrow> False
      | c # t \<Rightarrow> is_digit c \<or> (c = CHR ''.'' \<and> (case t of [] \<Rightarrow> False | d # u \<Rightarrow> is_digit d)))"

definition match_frac :: "string \<Rightarrow> string \<times> string" where
  "match_frac r =
     (case r of
        [] \<Rightarrow> ([], r)
      | c # t \<Rightarrow> if c = CHR ''.'' then (takeWhile is_digit t, dropWhile is_digit t) else ([], r))"

definition match_exp :: "string \<Rightarrow> int \<times> string" where
  "match_exp r =
     (case r of
        [] \<Rightarrow> (0, r)
      | c # t \<Rightarrow>
          if c = CHR ''E'' \<or> c = CHR ''e'' then
            (let (neg, u) = split_sign t; ds = takeWhile is_digit u in
               if ds = [] then (0, r)
               else (if neg then - int (int_of_digits ds) else int (int_of_digits ds),
                     dropWhile is_digit u))
          else (0, r))"

definition match_number :: "string \<Rightarrow> (string \<times> string \<times> int) option" where
  "match_number s =
     (if \<not> lookahead_number s then None
      else
        (let intpart = takeWhile is_digit s;
             (fracpart, r2) = match_frac (dropWhile is_digit s);
             (e, r3) = match_exp r2
         in if r3 = [] then Some (intpart, fracpart, e) else None))"

definition match_nan :: "string \<Rightarrow> (bool \<times> string) option" where
  "match_nan s =
     (let (signal, r) = (case s of [] \<Rightarrow> (False, s) | c # t \<Rightarrow> if c = CHR ''s'' then (True, t) else (False, s))
      in if take 3 r = ''nan'' \<and> list_all is_digit (drop 3 r) then Some (signal, drop 3 r) else None)"

text \<open>What the constructor builds from the sign and the rest of the text.\<close>

definition Decimal_of_match :: "bool \<Rightarrow> string \<Rightarrow> error + Decimal" where
  "Decimal_of_match neg body =
     (case match_number body of
        Some (intpart, fracpart, e) \<Rightarrow>
          Inr (Finite neg (int_of_digits (intpart @ fracpart)) (e - int (length fracpart)))
      | None \<Rightarrow>
          (let lb = map ascii_lower body in
             if lb = ''inf'' \<or> lb = ''infinity'' then Inr (Infinity neg)
             else
               (case match_nan lb of
                  Some (signal, diag) \<Rightarrow> Inr (NaN neg signal (int_of_digits diag))
                | None \<Rightarrow> Inl InvalidOperation)))"

definition Decimal_of_str :: "string \<Rightarrow> error + Decimal" where
  "Decimal_of_str v =
     (case split_sign (filter (\<lambda>c. c \<noteq> CHR ''_'') (strip v)) of
        (neg, body) \<Rightarrow> Decimal_of_match neg body)"

section \<open>The data model of \<^verbatim>\<open>models.py\<close>\<close>

text \<open>
  Every model class is a record extending \<open>AbstractOpenpayBase\<close>.  \<open>openpay_id\<close> is a
  \<^verbatim>\<open>CharField\<close> (blank until the first push); a Python test \<^verbatim>\<open>if self.openpay_id\<close> is
  \<open>openpay_id self \<noteq> []\<close>.  The attribute \<^verbatim>\<open>_openpay\<close>, which exists only after an
  assignment (\<^verbatim>\<open>hasattr(self, '_openpay')\<close>), is the optional field \<open>openpay_obj\<close>.
  A foreign key or one-to-one field is optional: it may not be set on an instance, and
  reading it then raises \<open>RelatedObjectDoesNotExist\<close> (the fields are declared
  \<^verbatim>\<open>null=False\<close>).  A model instance is true in Python, so \<^verbatim>\<open>not self.customer\<close>
  is false whenever the customer can be read.
\<close>

record AbstractOpenpayBase =
  openpay_id :: string
  creation_date :: "datetime option"

record Address = AbstractOpenpayBase +
  city :: string
  state :: string
  line1 :: string
  line2 :: string
  line3 :: string
  postal_code :: int
  country_code :: string

text \<open>
  The resources of the payment SDK, as far as the models read and write their
  attributes (\<^verbatim>\<open>id\<close>, \<^verbatim>\<open>name\<close>, \<^verbatim>\<open>creation_date\<close>, ...).  The SDK is not part of
  the package; amounts and dates are text, as the specification describes the fields
  exchanged with the remote service.
\<close>

record openpay_Customer =
  cu_id :: string
  cu_name :: string
  cu_last_name :: "string option"
  cu_email :: string
  cu_phone_number :: "string option"
  cu_address :: "(string \<times> pyval) list"
  cu_creation_date :: string

record openpay_Card =
  ca_id :: string
  ca_type :: string
  ca_holder_name :: string
  ca_card_number :: string
  ca_expiration_month :: string
  ca_expiration_year :: string
  ca_creation_date :: string

record openpay_Plan =
  pl_id :: string
  pl_name :: string
  pl_amount :: string
  pl_status_after_retry :: string
  pl_retry_times :: int
  pl_repeat_unit :: string
  pl_trial_days :: int
  pl_repeat_every :: int
  pl_creation_date :: string

record openpay_Subscription =
  su_id :: string
  su_trial_end_date :: "string option"
  su_card :: "openpay_Card option"
  su_card_id :: string
  su_cancel_at_period_end :: bool
  su_creation_date :: string

record openpay_Charge =
  ch_id :: string
  ch_description :: string
  ch_amount :: string
  ch_method :: string
  ch_currency :: string
  ch_creation_date :: string

record Customer = AbstractOpenpayBase +
  first_name :: string
  last_name :: "string option"
  email :: string
  phone_number :: "string option"
  address :: "Address option"
  openpay_obj :: "openpay_Customer option"

record Card = AbstractOpenpayBase +
  "alias" :: string
  card_type :: string
  holder :: string
  number :: string
  month :: string
  year :: string
  customer :: "Customer option"
  openpay_obj :: "openpay_Card option"

record Plan = AbstractOpenpayBase +
  name :: string
  amount :: Decimal
  retry_times :: int
  status_after_retry :: string
  trial_days :: int
  repeat_every :: int
  repeat_unit :: string
  openpay_obj :: "openpay_Plan option"

record Subscription = AbstractOpenpayBase +
  customer :: "Customer option"
  card :: "Card option"
  plan :: "Plan option"
  cancel_at_period_end :: bool
  trial_end_date :: "date option"
  openpay_obj :: "openpay_Subscription option"

text \<open>
  \<open>Charge.refund\<close> is the instance attribute that \<^verbatim>\<open>Charge.refund\<close> assigns
  (\<^verbatim>\<open>self.refund = True\<close>); it is absent until then.
\<close>

record Charge = AbstractOpenpayBase +
  description :: string
  amount :: Decimal
  "method" :: string
  currency :: string
  customer :: "Customer option"
  card :: "Card option"
  plan :: "Plan option"
  refund :: "bool option"
  openpay_obj :: "openpay_Charge option"

datatype model_instance =
    CustomerInstance Customer
  | CardInstance Card
  | PlanInstance Plan
  | SubscriptionInstance Subscription
  | ChargeInstance Charge

section \<open>The remote service and the other collaborators\<close>

text \<open>
  Every call of the payment SDK that reaches the remote service, with its arguments.
  A call on a collection of a customer (\<^verbatim>\<open>customer.cards.retrieve(id)\<close>) carries the
  customer resource it is made on; a call on a resource (\<^verbatim>\<open>save\<close>, \<^verbatim>\<open>delete\<close>,
  \<^verbatim>\<open>capture\<close>, \<^verbatim>\<open>refund\<close>) carries the resource.
\<close>

datatype call =
    CustomerCreate string "string option" string "string option" "(string \<times> pyval) list"
  | CustomerRetrieve string
  | CustomerSave openpay_Customer
  | CustomerDelete openpay_Customer
  | CardCreate string string string
  | CardRetrieve openpay_Customer string
  | CardDelete openpay_Card
  | PlanCreate string string string int string int int
  | PlanRetrieve string
  | PlanSave openpay_Plan
  | PlanDelete openpay_Plan
  | SubscriptionCreate openpay_Customer string "string option" string
  | SubscriptionRetrieve openpay_Customer string
  | SubscriptionSave openpay_Subscription
  | SubscriptionDelete openpay_Subscription
  | ChargeCreate openpay_Customer string string string string string string bool
  | ChargeRetrieve openpay_Customer string
  | ChargeCapture openpay_Charge
  | ChargeRefund openpay_Charge

text \<open>
  What the code takes from outside \<^verbatim>\<open>models.py\<close>.  The remote service is any
  deterministic one: its answer to a call is a function of the calls made so far and
  of the call, and is the resource of the kind the call returns, or an exception.
  \<open>device_id\<close> is \<^verbatim>\<open>openpay.device_id\<close>, \<open>charge_method_card\<close> is
  \<^verbatim>\<open>hardcode.charge_method_card\<close>; \<open>parse_datetime\<close>, \<open>parse_date\<close> are Django's
  (they return \<^verbatim>\<open>None\<close> on text that is not a date and may raise), \<open>isoformat\<close> is
  \<^verbatim>\<open>date.isoformat\<close>; \<open>full_clean\<close> is whether Django's validation accepts the
  instance; \<open>Customer_objects\<close> are the rows of the customer table.
\<close>

record env =
  api_customer :: "call list \<Rightarrow> call \<Rightarrow> error + openpay_Customer"
  api_card :: "call list \<Rightarrow> call \<Rightarrow> error + openpay_Card"
  api_plan :: "call list \<Rightarrow> call \<Rightarrow> error + openpay_Plan"
  api_subscription :: "call list \<Rightarrow> call \<Rightarrow> error + openpay_Subscription"
  api_charge :: "call list \<Rightarrow> call \<Rightarrow> error + openpay_Charge"
  api_unit :: "call list \<Rightarrow> call \<Rightarrow> error + unit"
  device_id :: string
  charge_method_card :: string
  parse_datetime :: "string \<Rightarrow> error + datetime option"
  parse_date :: "string option \<Rightarrow> error + date option"
  isoformat :: "date \<Rightarrow> string"
  full_clean :: "model_instance \<Rightarrow> bool"
  Customer_objects :: "Customer list"

text \<open>
  A method runs on its instance and on the calls made so far; it returns \<^verbatim>\<open>None\<close> or
  raises, and leaves the instance and the calls as they are at that moment.
\<close>

type_synonym 'a run = "(error + unit) \<times> 'a \<times> call list"

definition raised :: "'a run \<Rightarrow> error option" where
  "raised r = (case fst r of Inl e \<Rightarrow> Some e | Inr u \<Rightarrow> None)"

definition self_of :: "'a run \<Rightarrow> 'a" where
  "self_of r = fst (snd r)"

definition calls_of :: "'a run \<Rightarrow> call list" where
  "calls_of r = snd (snd r)"

text \<open>Sequencing: the rest runs only when the first part did not raise.\<close>

definition then_run :: "'a run \<Rightarrow> ('a \<Rightarrow> call list \<Rightarrow> 'a run) \<Rightarrow> 'a run" where
  "then_run r f = (case r of (Inl e, self, log) \<Rightarrow> (Inl e, self, log) | (Inr u, self, log) \<Rightarrow> f self log)"

section \<open>Address\<close>

text \<open>
  \<^verbatim>\<open>Address.json_dict\<close>: every concrete field but \<^verbatim>\<open>id\<close>, \<^verbatim>\<open>creation_date\<close> and
  \<^verbatim>\<open>openpay_id\<close> (the model has no many-to-many field).  \<open>Address\<close> does not override
  the base class's \<^verbatim>\<open>retrieve\<close>.
\<close>

definition json_dict :: "Address \<Rightarrow> (string \<times> pyval) list" where
  "json_dict a =
     [(''city'', PyStr (city a)), (''state'', PyStr (state a)), (''line1'', PyStr (line1 a)),
      (''line2'', PyStr (line2 a)), (''line3'', PyStr (line3 a)),
      (''postal_code'', PyInt (postal_code a)), (''country_code'', PyStr (country_code a))]"

definition Address_retrieve :: "env \<Rightarrow> Address \<Rightarrow> call list \<Rightarrow> Address run" where
  "Address_retrieve env self log = (Inl NotImplementedError, self, log)"

section \<open>Customer\<close>

definition Customer_retrieve :: "env \<Rightarrow> Customer \<Rightarrow> call list \<Rightarrow> Customer run" where
  "Customer_retrieve env self log =
     (if openpay_id self \<noteq> [] then
        (case api_customer env log (CustomerRetrieve (openpay_id self)) of
           Inl e \<Rightarrow> (Inl e, self, log @ [CustomerRetrieve (openpay_id self)])
         | Inr h \<Rightarrow> (Inr (), self\<lparr>Customer.openpay_obj := Some h\<rparr>,
                     log @ [CustomerRetrieve (openpay_id self)]))
      else (Inl OpenpayObjectDoesNotExist, self, log))"

definition Customer_pull :: "env \<Rightarrow> Customer \<Rightarrow> call list \<Rightarrow> Customer run" where
  "Customer_pull env self log =
     then_run (Customer_retrieve env self log) (\<lambda>self log.
       case Customer.openpay_obj self of
         None \<Rightarrow> (Inl (AttributeError ''_openpay''), self, log)
       | Some h \<Rightarrow>
           (let self = self\<lparr>first_name := cu_name h, last_name := cu_last_name h,
                             email := cu_email h, phone_number := cu_phone_number h\<rparr>
            in case parse_datetime env (cu_creation_date h) of
                 Inl e \<Rightarrow> (Inl e, self, log)
               | Inr d \<Rightarrow> (Inr (), self\<lparr>creation_date := d\<rparr>, log)))"

definition Customer_push :: "env \<Rightarrow> Customer \<Rightarrow> call list \<Rightarrow> Customer run" where
  "Customer_push env self log =
     (if openpay_id self \<noteq> [] then
        then_run (if Customer.openpay_obj self = None then Customer_retrieve env self log
                  else (Inr (), self, log)) (\<lambda>self log.
          case Customer.openpay_obj self of
            None \<Rightarrow> (Inl (AttributeError ''_openpay''), self, log)
          | Some h \<Rightarrow>
              (let h = h\<lparr>cu_name := first_name self, cu_last_name := last_name self,
                          cu_email := email self, cu_phone_number := phone_number self\<rparr>
               in case address self of
                    None \<Rightarrow> (Inl RelatedObjectDoesNotExist,
                              self\<lparr>Customer.openpay_obj := Some h\<rparr>, log)
                  | Some a \<Rightarrow>
                      (let h = h\<lparr>cu_address := json_dict a\<rparr>
                       in case api_customer env log (CustomerSave h) of
                            Inl e \<Rightarrow> (Inl e, self\<lparr>Customer.openpay_obj := Some h\<rparr>,
                                      log @ [CustomerSave h])
                          | Inr h' \<Rightarrow> (Inr (), self\<lparr>Customer.openpay_obj := Some h'\<rparr>,
                                       log @ [CustomerSave h]))))
      else
        (case address self of
           None \<Rightarrow> (Inl RelatedObjectDoesNotExist, self, log)
         | Some a \<Rightarrow>
             (let c = CustomerCreate (first_name self) (last_name self) (email self)
                        (phone_number self) (json_dict a)
              in case api_customer env log c of
                   Inl e \<Rightarrow> (Inl e, self, log @ [c])
                 | Inr h \<Rightarrow>
                     Customer_pull env
                       (self\<lparr>Customer.openpay_obj := Some h, openpay_id := cu_id h\<rparr>)
                       (log @ [c]))))"

definition Customer_remove :: "env \<Rightarrow> Customer \<Rightarrow> call list \<Rightarrow> Customer run" where
  "Customer_remove env self log =
     (if openpay_id self \<noteq> [] then
        then_run (if Customer.openpay_obj self = None then Customer_retrieve env self log
                  else (Inr (), self, log)) (\<lambda>self log.
          case Customer.openpay_obj self of
            None \<Rightarrow> (Inl (AttributeError ''_openpay''), self, log)
          | Some h \<Rightarrow>
              (case api_unit env log (CustomerDelete h) of
                 Inl e \<Rightarrow> (Inl e, self, log @ [CustomerDelete h])
               | Inr u \<Rightarrow> (Inr (), self, log @ [CustomerDelete h])))
      else (Inr (), self, log))"

definition customer_presave :: "env \<Rightarrow> Customer \<Rightarrow> call list \<Rightarrow> Customer run" where
  "customer_presave env instance log =
     (if \<not> full_clean env (CustomerInstance instance) then (Inl ValidationError, instance, log)
      else Customer_push env (instance\<lparr>email := strip (email instance)\<rparr>) log)"

definition customer_postdelete :: "env \<Rightarrow> Customer \<Rightarrow> call list \<Rightarrow> Customer run" where
  "customer_postdelete env instance log = Customer_remove env instance log"

section \<open>Card\<close>

text \<open>\<^verbatim>\<open>Customer.objects.get(openpay_id=...)\<close>: the one row with that identifier.\<close>

definition objects_get :: "Customer list \<Rightarrow> string \<Rightarrow> error + Customer" where
  "objects_get rows oid =
     (case filter (\<lambda>c. openpay_id c = oid) rows of
        [] \<Rightarrow> Inl DoesNotExist
      | [c] \<Rightarrow> Inr c
      | c # d # cs \<Rightarrow> Inl MultipleObjectsReturned)"

definition card_presave :: "env \<Rightarrow> Card \<Rightarrow> call list \<Rightarrow> Card run" where
  "card_presave env instance log =
     (if \<not> full_clean env (CardInstance instance) then (Inl ValidationError, instance, log)
      else (Inr (), instance, log))"

text \<open>
  \<^verbatim>\<open>card.save()\<close>: Django sends \<^verbatim>\<open>pre_save\<close> to \<open>card_presave\<close> and then writes the row.
\<close>

definition Card_save :: "env \<Rightarrow> Card \<Rightarrow> call list \<Rightarrow> Card run" where
  "Card_save env self log = card_presave env self log"

text \<open>
  \<^verbatim>\<open>Card.tokenized_create\<close>.  The source returns the \<^verbatim>\<open>None\<close> of \<^verbatim>\<open>card.save()\<close>; the model
  returns the instance that was built, as \<^verbatim>\<open>save\<close> leaves it.
\<close>

definition Card_tokenized_create ::
    "env \<Rightarrow> string \<Rightarrow> string \<Rightarrow> string \<Rightarrow> string \<Rightarrow> call list \<Rightarrow> (error + Card) \<times> call list" where
  "Card_tokenized_create env customerId tokenId deviceId al log =
     (let c = CardCreate customerId tokenId deviceId in
      case api_card env log c of
        Inl e \<Rightarrow> (Inl e, log @ [c])
      | Inr card_op \<Rightarrow>
          (case objects_get (Customer_objects env) customerId of
             Inl e \<Rightarrow> (Inl e, log @ [c])
           | Inr cust \<Rightarrow>
               (case parse_datetime env (ca_creation_date card_op) of
                  Inl e \<Rightarrow> (Inl e, log @ [c])
                | Inr d \<Rightarrow>
                    (let card = \<lparr>openpay_id = ca_id card_op,
                                 creation_date = d,
                                 alias = al,
                                 card_type = ca_type card_op,
                                 holder = ca_holder_name card_op,
                                 number = last_chars 4 (ca_card_number card_op),
                                 month = last_chars 2 (ca_expiration_month card_op),
                                 year = last_chars 2 (ca_expiration_year card_op),
                                 Card.customer = Some cust,
                                 Card.openpay_obj = Some card_op\<rparr>
                     in case Card_save env card (log @ [c]) of
                          (Inl e, card', log') \<Rightarrow> (Inl e, log')
                        | (Inr u, card', log') \<Rightarrow> (Inr card', log')))))"

definition Card_push :: "env \<Rightarrow> Card \<Rightarrow> call list \<Rightarrow> Card run" where
  "Card_push env self log = (Inl NotImplementedError, self, log)"

definition Card_retrieve :: "env \<Rightarrow> Card \<Rightarrow> call list \<Rightarrow> Card run" where
  "Card_retrieve env self log =
     (case Card.customer self of
        None \<Rightarrow> (Inl RelatedObjectDoesNotExist, self, log)
      | Some cust \<Rightarrow>
          if openpay_id cust = [] then (Inl OpenpayNoCustomer, self, log)
          else if openpay_id self \<noteq> [] then
            (case api_customer env log (CustomerRetrieve (openpay_id cust)) of
               Inl e \<Rightarrow> (Inl e, self, log @ [CustomerRetrieve (openpay_id cust)])
             | Inr ch \<Rightarrow>
                 (let log = log @ [CustomerRetrieve (openpay_id cust)];
                      c = CardRetrieve ch (openpay_id self)
                  in case api_card env log c of
                       Inl e \<Rightarrow> (Inl e, self, log @ [c])
                     | Inr h \<Rightarrow> (Inr (), self\<lparr>Card.openpay_obj := Some h\<rparr>, log @ [c])))
          else (Inl OpenpayObjectDoesNotExist, self, log))"

definition Card_pull :: "env \<Rightarrow> Card \<Rightarrow> call list \<Rightarrow> Card run" where
  "Card_pull env self log =
     then_run (Card_retrieve env self log) (\<lambda>self log.
       case Card.openpay_obj self of
         None \<Rightarrow> (Inl (AttributeError ''_openpay''), self, log)
       | Some h \<Rightarrow>
           (let self = self\<lparr>card_type := ca_type h,
                             holder := ca_holder_name h,
                             number := last_chars 4 (ca_card_number h),
                             month := last_chars 2 (ca_expiration_month h),
                             year := last_chars 2 (ca_expiration_year h)\<rparr>
            in case parse_datetime env (ca_creation_date h) of
                 Inl e \<Rightarrow> (Inl e, self, log)
               | Inr d \<Rightarrow> (Inr (), self\<lparr>creation_date := d\<rparr>, log)))"

definition Card_remove :: "env \<Rightarrow> Card \<Rightarrow> call list \<Rightarrow> Card run" where
  "Card_remove env self log =
     (if openpay_id self \<noteq> [] then
        then_run (if Card.openpay_obj self = None then Card_retrieve env self log
                  else (Inr (), self, log)) (\<lambda>self log.
          case Card.openpay_obj self of
            None \<Rightarrow> (Inl (AttributeError ''_openpay''), self, log)
          | Some h \<Rightarrow>
              (case api_unit env log (CardDelete h) of
                 Inl e \<Rightarrow> (Inl e, self, log @ [CardDelete h])
               | Inr u \<Rightarrow> (Inr (), self, log @ [CardDelete h])))
      else (Inr (), self, log))"

definition card_postdelete :: "env \<Rightarrow> Card \<Rightarrow> call list \<Rightarrow> Card run" where
  "card_postdelete env instance log = Card_remove env instance log"

section \<open>Plan\<close>

definition Plan_retrieve :: "env \<Rightarrow> Plan \<Rightarrow> call list \<Rightarrow> Plan run" where
  "Plan_retrieve env self log =
     (if openpay_id self \<noteq> [] then
        (case api_plan env log (PlanRetrieve (openpay_id self)) of
           Inl e \<Rightarrow> (Inl e, self, log @ [PlanRetrieve (openpay_id self)])
         | Inr h \<Rightarrow> (Inr (), self\<lparr>Plan.openpay_obj := Some h\<rparr>,
                     log @ [PlanRetrieve (openpay_id self)]))
      else (Inl OpenpayObjectDoesNotExist, self, log))"

definition Plan_pull :: "env \<Rightarrow> Plan \<Rightarrow> call list \<Rightarrow> Plan run" where
  "Plan_pull env self log =
     then_run (Plan_retrieve env self log) (\<lambda>self log.
       case Plan.openpay_obj self of
         None \<Rightarrow> (Inl (AttributeError ''_openpay''), self, log)
       | Some h \<Rightarrow>
           (let self = self\<lparr>name := pl_name h\<rparr> in
            case Decimal_of_str (pl_amount h) of
              Inl e \<Rightarrow> (Inl e, self, log)
            | Inr a \<Rightarrow>
                (let self = self\<lparr>Plan.amount := a,
                                  status_after_retry := pl_status_after_retry h,
                                  retry_times := pl_retry_times h,
                                  repeat_unit := pl_repeat_unit h,
                                  trial_days := pl_trial_days h,
                                  repeat_every := pl_repeat_every h\<rparr>
                 in case parse_datetime env (pl_creation_date h) of
                      Inl e \<Rightarrow> (Inl e, self, log)
                    | Inr d \<Rightarrow> (Inr (), self\<lparr>creation_date := d\<rparr>, log))))"

definition Plan_push :: "env \<Rightarrow> Plan \<Rightarrow> call list \<Rightarrow> Plan run" where
  "Plan_push env self log =
     (if openpay_id self \<noteq> [] then
        then_run (if Plan.openpay_obj self = None then Plan_retrieve env self log
                  else (Inr (), self, log)) (\<lambda>self log.
          case Plan.openpay_obj self of
            None \<Rightarrow> (Inl (AttributeError ''_openpay''), self, log)
          | Some h \<Rightarrow>
              (let h = h\<lparr>pl_name := name self, pl_trial_days := trial_days self\<rparr>
               in case api_plan env log (PlanSave h) of
                    Inl e \<Rightarrow> (Inl e, self\<lparr>Plan.openpay_obj := Some h\<rparr>, log @ [PlanSave h])
                  | Inr h' \<Rightarrow> (Inr (), self\<lparr>Plan.openpay_obj := Some h'\<rparr>, log @ [PlanSave h])))
      else
        (let c = PlanCreate (name self) (str_Decimal (Plan.amount self)) (status_after_retry self)
                   (retry_times self) (repeat_unit self) (trial_days self) (repeat_every self)
         in case api_plan env log c of
              Inl e \<Rightarrow> (Inl e, self, log @ [c])
            | Inr h \<Rightarrow>
                Plan_pull env (self\<lparr>Plan.openpay_obj := Some h, openpay_id := pl_id h\<rparr>)
                  (log @ [c])))"

definition Plan_remove :: "env \<Rightarrow> Plan \<Rightarrow> call list \<Rightarrow> Plan run" where
  "Plan_remove env self log =
     (if openpay_id self \<noteq> [] then
        then_run (if Plan.openpay_obj self = None then Plan_retrieve env self log
                  else (Inr (), self, log)) (\<lambda>self log.
          case Plan.openpay_obj self of
            None \<Rightarrow> (Inl (AttributeError ''_openpay''), self, log)
          | Some h \<Rightarrow>
              (case api_unit env log (PlanDelete h) of
                 Inl e \<Rightarrow> (Inl e, self, log @ [PlanDelete h])
               | Inr u \<Rightarrow> (Inr (), self, log @ [PlanDelete h])))
      else (Inr (), self, log))"

definition plan_presave :: "env \<Rightarrow> Plan \<Rightarrow> call list \<Rightarrow> Plan run" where
  "plan_presave env instance log =
     (if \<not> full_clean env (PlanInstance instance) then (Inl ValidationError, instance, log)
      else Plan_push env instance log)"

definition plan_postdelete :: "env \<Rightarrow> Plan \<Rightarrow> call list \<Rightarrow> Plan run" where
  "plan_postdelete env instance log = Plan_remove env instance log"

section \<open>Subscription\<close>

definition Subscription_retrieve :: "env \<Rightarrow> Subscription \<Rightarrow> call list \<Rightarrow> Subscription run" where
  "Subscription_retrieve env self log =
     (case Subscription.customer self of
        None \<Rightarrow> (Inl RelatedObjectDoesNotExist, self, log)
      | Some cust \<Rightarrow>
          if openpay_id cust = [] then (Inl OpenpayNoCustomer, self, log)
          else if openpay_id self \<noteq> [] then
            (case api_customer env log (CustomerRetrieve (openpay_id cust)) of
               Inl e \<Rightarrow> (Inl e, self, log @ [CustomerRetrieve (openpay_id cust)])
             | Inr ch \<Rightarrow>
                 (let log = log @ [CustomerRetrieve (openpay_id cust)];
                      c = SubscriptionRetrieve ch (openpay_id self)
                  in case api_subscription env log c of
                       Inl e \<Rightarrow> (Inl e, self, log @ [c])
                     | Inr h \<Rightarrow> (Inr (), self\<lparr>Subscription.openpay_obj := Some h\<rparr>, log @ [c])))
          else (Inl OpenpayObjectDoesNotExist, self, log))"

definition Subscription_pull :: "env \<Rightarrow> Subscription \<Rightarrow> call list \<Rightarrow> Subscription run" where
  "Subscription_pull env self log =
     then_run (Subscription_retrieve env self log) (\<lambda>self log.
       case Subscription.openpay_obj self of
         None \<Rightarrow> (Inl (AttributeError ''_openpay''), self, log)
       | Some h \<Rightarrow>
           (case parse_date env (su_trial_end_date h) of
              Inl e \<Rightarrow> (Inl e, self, log)
            | Inr t \<Rightarrow>
                (let self = self\<lparr>trial_end_date := t,
                                  cancel_at_period_end := su_cancel_at_period_end h\<rparr>
                 in case parse_datetime env (su_creation_date h) of
                      Inl e \<Rightarrow> (Inl e, self, log)
                    | Inr d \<Rightarrow> (Inr (), self\<lparr>creation_date := d\<rparr>, log))))"

text \<open>
  \<^verbatim>\<open>self._openpay.save()\<close> on a subscription resource; the resource may come back
  refreshed.
\<close>

definition Subscription_save_remote ::
    "env \<Rightarrow> openpay_Subscription \<Rightarrow> Subscription \<Rightarrow> call list \<Rightarrow> Subscription run" where
  "Subscription_save_remote env h self log =
     (case api_subscription env log (SubscriptionSave h) of
        Inl e \<Rightarrow> (Inl e, self\<lparr>Subscription.openpay_obj := Some h\<rparr>, log @ [SubscriptionSave h])
      | Inr h' \<Rightarrow> (Inr (), self\<lparr>Subscription.openpay_obj := Some h'\<rparr>, log @ [SubscriptionSave h]))"

text \<open>
  The create branch of \<^verbatim>\<open>Subscription.push\<close> from the create call on, under the
  customer resource \<open>ch\<close> that the lookup returned, with the plan and card read.
\<close>

definition Subscription_create ::
    "env \<Rightarrow> openpay_Customer \<Rightarrow> Plan \<Rightarrow> Card \<Rightarrow> Subscription \<Rightarrow> call list \<Rightarrow> Subscription run" where
  "Subscription_create env ch pln crd self log =
     (let c = SubscriptionCreate ch (openpay_id pln)
                (map_option (isoformat env) (trial_end_date self)) (openpay_id crd)
      in case api_subscription env log c of
           Inl e \<Rightarrow> (Inl e, self, log @ [c])
         | Inr h \<Rightarrow>
             then_run
               (if cancel_at_period_end self then
                  Subscription_save_remote env
                    (h\<lparr>su_cancel_at_period_end := cancel_at_period_end self\<rparr>) self (log @ [c])
                else (Inr (), self\<lparr>Subscription.openpay_obj := Some h\<rparr>, log @ [c]))
               (\<lambda>self log.
                  case Subscription.openpay_obj self of
                    None \<Rightarrow> (Inl (AttributeError ''_openpay''), self, log)
                  | Some h \<Rightarrow> Subscription_pull env (self\<lparr>openpay_id := su_id h\<rparr>) log))"

definition Subscription_push :: "env \<Rightarrow> Subscription \<Rightarrow> call list \<Rightarrow> Subscription run" where
  "Subscription_push env self log =
     (if openpay_id self \<noteq> [] then
        then_run (if Subscription.openpay_obj self = None then Subscription_retrieve env self log
                  else (Inr (), self, log)) (\<lambda>self log.
          case Subscription.openpay_obj self of
            None \<Rightarrow> (Inl (AttributeError ''_openpay''), self, log)
          | Some h \<Rightarrow>
              (case trial_end_date self of
                 None \<Rightarrow> (Inl (AttributeError ''isoformat''), self, log)
               | Some t \<Rightarrow>
                   (let h = h\<lparr>su_trial_end_date := Some (isoformat env t), su_card := None\<rparr> in
                    case Subscription.card self of
                      None \<Rightarrow> (Inl RelatedObjectDoesNotExist,
                                self\<lparr>Subscription.openpay_obj := Some h\<rparr>, log)
                    | Some crd \<Rightarrow>
                        Subscription_save_remote env
                          (h\<lparr>su_card_id := openpay_id crd,
                             su_cancel_at_period_end := cancel_at_period_end self\<rparr>)
                          self log)))
      else
        (case Subscription.customer self of
           None \<Rightarrow> (Inl RelatedObjectDoesNotExist, self, log)
         | Some cust \<Rightarrow>
             if openpay_id cust = [] then (Inl OpenpayNoCustomer, self, log)
             else
               (case Subscription.card self of
                  None \<Rightarrow> (Inl RelatedObjectDoesNotExist, self, log)
                | Some crd \<Rightarrow>
                    if openpay_id crd = [] then (Inl OpenpayNoCard, self, log)
                    else
                      (case api_customer env log (CustomerRetrieve (openpay_id cust)) of
                         Inl e \<Rightarrow> (Inl e, self, log @ [CustomerRetrieve (openpay_id cust)])
                       | Inr ch \<Rightarrow>
                           (case Subscription.plan self of
                              None \<Rightarrow> (Inl RelatedObjectDoesNotExist, self,
                                        log @ [CustomerRetrieve (openpay_id cust)])
                            | Some pln \<Rightarrow>
                                Subscription_create env ch pln crd self
                                  (log @ [CustomerRetrieve (openpay_id cust)]))))))"

definition Subscription_remove :: "env \<Rightarrow> Subscription \<Rightarrow> call list \<Rightarrow> Subscription run" where
  "Subscription_remove env self log =
     (if openpay_id self \<noteq> [] then
        then_run (if Subscription.openpay_obj self = None then Subscription_retrieve env self log
                  else (Inr (), self, log)) (\<lambda>self log.
          case Subscription.openpay_obj self of
            None \<Rightarrow> (Inl (AttributeError ''_openpay''), self, log)
          | Some h \<Rightarrow>
              (case api_unit env log (SubscriptionDelete h) of
                 Inl e \<Rightarrow> (Inl e, self, log @ [SubscriptionDelete h])
               | Inr u \<Rightarrow> (Inr (), self, log @ [SubscriptionDelete h])))
      else (Inr (), self, log))"

definition subscription_presave :: "env \<Rightarrow> Subscription \<Rightarrow> call list \<Rightarrow> Subscription run" where
  "subscription_presave env instance log =
     (if \<not> full_clean env (SubscriptionInstance instance) then (Inl ValidationError, instance, log)
      else Subscription_push env instance log)"

definition subscription_postdelete :: "env \<Rightarrow> Subscription \<Rightarrow> call list \<Rightarrow> Subscription run" where
  "subscription_postdelete env instance log = Subscription_remove env instance log"

section \<open>Charge\<close>

definition Charge_retrieve :: "env \<Rightarrow> Charge \<Rightarrow> call list \<Rightarrow> Charge run" where
  "Charge_retrieve env self log =
     (case Charge.customer self of
        None \<Rightarrow> (Inl RelatedObjectDoesNotExist, self, log)
      | Some cust \<Rightarrow>
          if openpay_id cust = [] then (Inl OpenpayNoCustomer, self, log)
          else if openpay_id self \<noteq> [] then
            (case api_customer env log (CustomerRetrieve (openpay_id cust)) of
               Inl e \<Rightarrow> (Inl e, self, log @ [CustomerRetrieve (openpay_id cust)])
             | Inr ch \<Rightarrow>
                 (let log = log @ [CustomerRetrieve (openpay_id cust)];
                      c = ChargeRetrieve ch (openpay_id self)
                  in case api_charge env log c of
                       Inl e \<Rightarrow> (Inl e, self, log @ [c])
                     | Inr h \<Rightarrow> (Inr (), self\<lparr>Charge.openpay_obj := Some h\<rparr>, log @ [c])))
          else (Inl OpenpayObjectDoesNotExist, self, log))"

definition Charge_pull :: "env \<Rightarrow> Charge \<Rightarrow> call list \<Rightarrow> Charge run" where
  "Charge_pull env self log =
     then_run (Charge_retrieve env self log) (\<lambda>self log.
       case Charge.openpay_obj self of
         None \<Rightarrow> (Inl (AttributeError ''_openpay''), self, log)
       | Some h \<Rightarrow>
           (let self = self\<lparr>description := ch_description h\<rparr> in
            case Decimal_of_str (ch_amount h) of
              Inl e \<Rightarrow> (Inl e, self, log)
            | Inr a \<Rightarrow>
                (let self = self\<lparr>Charge.amount := a, method := ch_method h,
                                  currency := ch_currency h\<rparr>
                 in case parse_datetime env (ch_creation_date h) of
                      Inl e \<Rightarrow> (Inl e, self, log)
                    | Inr d \<Rightarrow> (Inr (), self\<lparr>creation_date := d\<rparr>, log))))"

definition Charge_push :: "env \<Rightarrow> Charge \<Rightarrow> call list \<Rightarrow> Charge run" where
  "Charge_push env self log =
     (if openpay_id self = [] then
        (case Charge.customer self of
           None \<Rightarrow> (Inl RelatedObjectDoesNotExist, self, log)
         | Some cust \<Rightarrow>
             if openpay_id cust = [] then (Inl OpenpayNoCustomer, self, log)
             else
               (case Charge.card self of
                  None \<Rightarrow> (Inl RelatedObjectDoesNotExist, self, log)
                | Some crd \<Rightarrow>
                    if openpay_id crd = [] then (Inl OpenpayNoCard, self, log)
                    else
                      (case api_customer env log (CustomerRetrieve (openpay_id cust)) of
                         Inl e \<Rightarrow> (Inl e, self, log @ [CustomerRetrieve (openpay_id cust)])
                       | Inr ch \<Rightarrow>
                           (let log = log @ [CustomerRetrieve (openpay_id cust)];
                                c = ChargeCreate ch (openpay_id crd) (method self)
                                      (str_Decimal (Charge.amount self)) (currency self)
                                      (description self) (device_id env) False
                            in case api_charge env log c of
                                 Inl e \<Rightarrow> (Inl e, self, log @ [c])
                               | Inr h \<Rightarrow>
                                   Charge_pull env
                                     (self\<lparr>Charge.openpay_obj := Some h, openpay_id := ch_id h\<rparr>)
                                     (log @ [c])))))
      else (Inr (), self, log))"

definition charge_presave :: "env \<Rightarrow> Charge \<Rightarrow> call list \<Rightarrow> Charge run" where
  "charge_presave env instance log =
     (if \<not> full_clean env (ChargeInstance instance) then (Inl ValidationError, instance, log)
      else Charge_push env instance log)"

text \<open>
  \<^verbatim>\<open>self.save()\<close>: Django sends \<^verbatim>\<open>pre_save\<close> to \<open>charge_presave\<close> and then writes the row.
\<close>

definition Charge_save :: "env \<Rightarrow> Charge \<Rightarrow> call list \<Rightarrow> Charge run" where
  "Charge_save env self log = charge_presave env self log"

definition Charge_capture :: "env \<Rightarrow> Charge \<Rightarrow> call list \<Rightarrow> Charge run" where
  "Charge_capture env self log =
     (if openpay_id self \<noteq> [] \<and> method self = charge_method_card env then
        then_run (if Charge.openpay_obj self = None then Charge_retrieve env self log
                  else (Inr (), self, log)) (\<lambda>self log.
          case Charge.openpay_obj self of
            None \<Rightarrow> (Inl (AttributeError ''_openpay''), self, log)
          | Some h \<Rightarrow>
              (case api_unit env log (ChargeCapture h) of
                 Inl e \<Rightarrow> (Inl e, self, log @ [ChargeCapture h])
               | Inr u \<Rightarrow> (Inr (), self, log @ [ChargeCapture h])))
      else (Inl OpenpayObjectDoesNotExist, self, log))"

definition Charge_refund :: "env \<Rightarrow> Charge \<Rightarrow> call list \<Rightarrow> Charge run" where
  "Charge_refund env self log =
     (if openpay_id self \<noteq> [] \<and> method self = charge_method_card env then
        then_run (if Charge.openpay_obj self = None then Charge_retrieve env self log
                  else (Inr (), self, log)) (\<lambda>self log.
          case Charge.openpay_obj self of
            None \<Rightarrow> (Inl (AttributeError ''_openpay''), self, log)
          | Some h \<Rightarrow>
              (case api_unit env log (ChargeRefund h) of
                 Inl e \<Rightarrow> (Inl e, self, log @ [ChargeRefund h])
               | Inr u \<Rightarrow> Charge_save env (self\<lparr>refund := Some True\<rparr>) (log @ [ChargeRefund h])))
      else (Inr (), self, log))"

definition Charge_remove :: "env \<Rightarrow> Charge \<Rightarrow> call list \<Rightarrow> Charge run" where
  "Charge_remove env self log = (Inl NotImplementedError, self, log)"

definition charge_predelete :: "env \<Rightarrow> Charge \<Rightarrow> call list \<Rightarrow> Charge run" where
  "charge_predelete env instance log = Charge_remove env instance log"

section \<open>The admin actions of \<^verbatim>\<open>admin.py\<close>\<close>

text \<open>
  \<^verbatim>\<open>charge.m()\<close> looks the name \<open>m\<close> up on the instance.  \<open>Charge_methods\<close> are the
  instance methods that class \<^verbatim>\<open>Charge\<close> defines or overrides, and \<^verbatim>\<open>save\<close> (the class
  method \<^verbatim>\<open>get_readonly_fields\<close> takes other arguments and is left out); a name that is
  not found raises \<^verbatim>\<open>AttributeError\<close>.  Once \<^verbatim>\<open>Charge.refund\<close> has assigned the instance
  attribute \<^verbatim>\<open>refund\<close>, that name finds the boolean, which cannot be called.
\<close>

definition Charge_methods :: "(string \<times> (env \<Rightarrow> Charge \<Rightarrow> call list \<Rightarrow> Charge run)) list" where
  "Charge_methods =
     [(''capture'', Charge_capture), (''refund'', Charge_refund), (''push'', Charge_push),
      (''pull'', Charge_pull), (''retrieve'', Charge_retrieve), (''remove'', Charge_remove),
      (''save'', Charge_save)]"

definition Charge_call :: "string \<Rightarrow> env \<Rightarrow> Charge \<Rightarrow> call list \<Rightarrow> Charge run" where
  "Charge_call m env self log =
     (if m = ''refund'' \<and> refund self \<noteq> None then (Inl (TypeError ''bool''), self, log)
      else
        (case map_of Charge_methods m of
           None \<Rightarrow> (Inl (AttributeError m), self, log)
         | Some f \<Rightarrow> f env self log))"

text \<open>
  The loop of \<^verbatim>\<open>ChargeAdmin.capture\<close>: the charges of the queryset in turn, counting.  An
  exception leaves the loop; the charges come back as the loop left them.
\<close>

fun capture_loop ::
    "env \<Rightarrow> Charge list \<Rightarrow> nat \<Rightarrow> call list \<Rightarrow> (error + nat) \<times> Charge list \<times> call list" where
  "capture_loop env [] captured log = (Inr captured, [], log)"
| "capture_loop env (charge # queryset) captured log =
     (case Charge_call ''capture_charge'' env charge log of
        (Inl e, charge', log') \<Rightarrow> (Inl e, charge' # queryset, log')
      | (Inr u, charge', log') \<Rightarrow>
          (case capture_loop env queryset (captured + 1) log' of
             (r, queryset', log'') \<Rightarrow> (r, charge' # queryset', log'')))"

text \<open>The result is the message passed to \<^verbatim>\<open>message_user\<close>, if any.\<close>

definition ChargeAdmin_capture ::
    "env \<Rightarrow> Charge list \<Rightarrow> call list \<Rightarrow> (error + string option) \<times> Charge list \<times> call list" where
  "ChargeAdmin_capture env queryset log =
     (case capture_loop env queryset 0 log of
        (Inl e, queryset', log') \<Rightarrow> (Inl e, queryset', log')
      | (Inr captured, queryset', log') \<Rightarrow>
          (let message_bit = (if captured = 1 then ''1 charge was''
                              else str_nat captured @ '' charges were'')
           in (Inr (Some (message_bit @ '' successfully captured.'')), queryset', log')))"

fun refund_loop ::
    "env \<Rightarrow> Charge list \<Rightarrow> nat \<Rightarrow> call list \<Rightarrow> (error + nat) \<times> Charge list \<times> call list" where
  "refund_loop env [] refunded log = (Inr refunded, [], log)"
| "refund_loop env (charge # queryset) refunded log =
     (case Charge_call ''refund_charge'' env charge log of
        (Inl e, charge', log') \<Rightarrow> (Inl e, charge' # queryset, log')
      | (Inr u, charge', log') \<Rightarrow>
          (case refund_loop env queryset (refunded + 1) log' of
             (r, queryset', log'') \<Rightarrow> (r, charge' # queryset', log'')))"

definition ChargeAdmin_refund ::
    "env \<Rightarrow> Charge list \<Rightarrow> call list \<Rightarrow> (error + string option) \<times> Charge list \<times> call list" where
  "ChargeAdmin_refund env queryset log =
     (case refund_loop env queryset 0 log of
        (Inl e, queryset', log') \<Rightarrow> (Inl e, queryset', log')
      | (Inr refunded, queryset', log') \<Rightarrow>
          (if refunded = 1 then (Inr None, queryset', log')
           else (Inr (Some (str_nat refunded @ '' charges were'' @ '' successfully refunded.'')),
                 queryset', log')))"

section \<open>Example data\<close>

text \<open>
  A small remote service, used to run the operations on concrete inputs: it creates
  resources with fixed identifiers from the values sent, answers a plan lookup with the
  plan created last, and knows one customer, one card, one subscription and one charge.
\<close>

definition example_stamp :: string where
  "example_stamp = ''2017-03-01T10:00:00''"

definition example_api_customer :: "call list \<Rightarrow> call \<Rightarrow> error + openpay_Customer" where
  "example_api_customer log c =
     (case c of
        CustomerCreate n l e p a \<Rightarrow>
          Inr \<lparr>cu_id = ''cus1'', cu_name = n, cu_last_name = l, cu_email = e,
               cu_phone_number = p, cu_address = a, cu_creation_date = example_stamp\<rparr>
      | CustomerRetrieve i \<Rightarrow>
          if i = ''cus1'' then
            Inr \<lparr>cu_id = ''cus1'', cu_name = ''Ana'', cu_last_name = Some ''Ruiz'',
                 cu_email = ''ana@example.com'', cu_phone_number = None, cu_address = [],
                 cu_creation_date = example_stamp\<rparr>
          else Inl (LibraryError ''not found'')
      | CustomerSave h \<Rightarrow> Inr h
      | _ \<Rightarrow> Inl (LibraryError ''bad request''))"

definition example_card_resource :: openpay_Card where
  "example_card_resource =
     \<lparr>ca_id = ''card1'', ca_type = ''debit'', ca_holder_name = ''Ana Ruiz'',
      ca_card_number = ''411111XXXXXX1111'', ca_expiration_month = ''07'',
      ca_expiration_year = ''2029'', ca_creation_date = example_stamp\<rparr>"

definition example_api_card :: "call list \<Rightarrow> call \<Rightarrow> error + openpay_Card" where
  "example_api_card log c =
     (case c of
        CardCreate cust tok dev \<Rightarrow> Inr example_card_resource
      | CardRetrieve h i \<Rightarrow>
          if i = ''card1'' then Inr example_card_resource else Inl (LibraryError ''not found'')
      | _ \<Rightarrow> Inl (LibraryError ''bad request''))"

fun created_plan :: "call \<Rightarrow> openpay_Plan option" where
  "created_plan (PlanCreate n a s r u t e) =
     Some \<lparr>pl_id = ''plan1'', pl_name = n, pl_amount = a, pl_status_after_retry = s,
           pl_retry_times = r, pl_repeat_unit = u, pl_trial_days = t, pl_repeat_every = e,
           pl_creation_date = example_stamp\<rparr>"
| "created_plan c = None"

definition example_api_plan :: "call list \<Rightarrow> call \<Rightarrow> error + openpay_Plan" where
  "example_api_plan log c =
     (case c of
        PlanCreate n a s r u t e \<Rightarrow>
          (case created_plan c of None \<Rightarrow> Inl (LibraryError ''bad request'') | Some h \<Rightarrow> Inr h)
      | PlanRetrieve i \<Rightarrow>
          (case List.map_filter created_plan (rev log) of
             [] \<Rightarrow> Inl (LibraryError ''not found'')
           | h # hs \<Rightarrow> if pl_id h = i then Inr h else Inl (LibraryError ''not found''))
      | PlanSave h \<Rightarrow> Inr h
      | _ \<Rightarrow> Inl (LibraryError ''bad request''))"

definition example_api_subscription :: "call list \<Rightarrow> call \<Rightarrow> error + openpay_Subscription" where
  "example_api_subscription log c =
     (case c of
        SubscriptionCreate h p t k \<Rightarrow>
          Inr \<lparr>su_id = ''sub1'', su_trial_end_date = t, su_card = Some example_card_resource,
               su_card_id = k, su_cancel_at_period_end = False,
               su_creation_date = example_stamp\<rparr>
      | SubscriptionRetrieve h i \<Rightarrow>
          if i = ''sub1'' then
            Inr \<lparr>su_id = ''sub1'', su_trial_end_date = Some ''2017-04-01'',
                 su_card = Some example_card_resource, su_card_id = ''card1'',
                 su_cancel_at_period_end = False, su_creation_date = example_stamp\<rparr>
          else Inl (LibraryError ''not found'')
      | SubscriptionSave h \<Rightarrow> Inr h
      | _ \<Rightarrow> Inl (LibraryError ''bad request''))"

definition example_api_charge :: "call list \<Rightarrow> call \<Rightarrow> error + openpay_Charge" where
  "example_api_charge log c =
     (case c of
        ChargeCreate h src m a cur d dev cap \<Rightarrow>
          Inr \<lparr>ch_id = ''chg1'', ch_description = d, ch_amount = a, ch_method = m,
               ch_currency = cur, ch_creation_date = example_stamp\<rparr>
      | ChargeRetrieve h i \<Rightarrow>
          if i = ''chg1'' then
            Inr \<lparr>ch_id = ''chg1'', ch_description = ''order 7'', ch_amount = ''150.50'',
                 ch_method = ''card'', ch_currency = ''MXN'', ch_creation_date = example_stamp\<rparr>
          else Inl (LibraryError ''not found'')
      | _ \<Rightarrow> Inl (LibraryError ''bad request''))"

definition example_address :: Address where
  "example_address =
     \<lparr>openpay_id = [], creation_date = None, city = ''Puebla'', state = ''Puebla'',
      line1 = ''Reforma 1'', line2 = [], line3 = [], postal_code = 72000,
      country_code = ''MX''\<rparr>"

text \<open>A customer that was never pushed, and the same customer once it is synchronized.\<close>

definition example_new_customer :: Customer where
  "example_new_customer =
     \<lparr>openpay_id = [], creation_date = None, first_name = ''Ana'', last_name = Some ''Ruiz'',
      email = ''ana@example.com'', phone_number = None, address = Some example_address,
      Customer.openpay_obj = None\<rparr>"

definition example_customer :: Customer where
  "example_customer = example_new_customer\<lparr>openpay_id := ''cus1''\<rparr>"

definition example_env :: env where
  "example_env =
     \<lparr>api_customer = example_api_customer, api_card = example_api_card,
      api_plan = example_api_plan, api_subscription = example_api_subscription,
      api_charge = example_api_charge, api_unit = (\<lambda>log c. Inr ()),
      device_id = ''dev1'', charge_method_card = ''card'',
      parse_datetime = (\<lambda>s. Inr (if s = example_stamp
                                   then Some (Datetime (Date 2017 3 1) 10 0 0 0 None) else None)),
      parse_date = (\<lambda>s. Inr (if s = Some ''2017-04-01'' then Some (Date 2017 4 1) else None)),
      isoformat = (\<lambda>d. if d = Date 2017 4 1 then ''2017-04-01'' else ''2017-01-01''),
      full_clean = (\<lambda>i. True),
      Customer_objects = [example_customer]\<rparr>"

text \<open>Cards, plans, subscriptions and charges, pushed or not, of either customer.\<close>

definition example_card :: Card where
  "example_card =
     \<lparr>openpay_id = ''card1'', creation_date = None, alias = ''mine'', card_type = ''debit'',
      holder = ''Ana Ruiz'', number = ''1111'', month = ''07'', year = ''29'',
      Card.customer = Some example_customer, Card.openpay_obj = None\<rparr>"

definition example_orphan_card :: Card where
  "example_orphan_card = example_card\<lparr>Card.customer := Some example_new_customer\<rparr>"

definition example_new_plan :: Plan where
  "example_new_plan =
     \<lparr>openpay_id = [], creation_date = None, name = ''Gold'', Plan.amount = Finite False 19900 (- 2),
      retry_times = 3, status_after_retry = ''unpaid'', trial_days = 0, repeat_every = 1,
      repeat_unit = ''month'', Plan.openpay_obj = None\<rparr>"

definition example_plan :: Plan where
  "example_plan = example_new_plan\<lparr>openpay_id := ''plan1''\<rparr>"

definition example_new_subscription :: Subscription where
  "example_new_subscription =
     \<lparr>openpay_id = [], creation_date = None, Subscription.customer = Some example_customer,
      Subscription.card = Some example_card, Subscription.plan = Some example_plan,
      cancel_at_period_end = False, trial_end_date = Some (Date 2017 4 1),
      Subscription.openpay_obj = None\<rparr>"

definition example_subscription :: Subscription where
  "example_subscription = example_new_subscription\<lparr>openpay_id := ''sub1''\<rparr>"

definition example_new_charge :: Charge where
  "example_new_charge =
     \<lparr>openpay_id = [], creation_date = None, description = ''order 7'',
      Charge.amount = Finite False 15050 (- 2), method = ''card'', currency = ''MXN'',
      Charge.customer = Some example_customer, Charge.card = Some example_card,
      Charge.plan = Some example_plan, refund = None, Charge.openpay_obj = None\<rparr>"

definition example_charge :: Charge where
  "example_charge = example_new_charge\<lparr>openpay_id := ''chg1''\<rparr>"

text \<open>
  A remote service that holds one plan with the amount text \<^verbatim>\<open>199.0\<close> and answers
  every plan call with it, and one that answers every card call with a card whose
  number has three characters.
\<close>

definition example_fixed_plan :: openpay_Plan where
  "example_fixed_plan =
     \<lparr>pl_id = ''plan1'', pl_name = ''Gold'', pl_amount = ''199.0'',
      pl_status_after_retry = ''unpaid'', pl_retry_times = 3, pl_repeat_unit = ''month'',
      pl_trial_days = 0, pl_repeat_every = 1, pl_creation_date = example_stamp\<rparr>"

definition example_fixed_env :: env where
  "example_fixed_env = example_env\<lparr>api_plan := (\<lambda>log c. Inr example_fixed_plan)\<rparr>"

definition example_short_card :: openpay_Card where
  "example_short_card = example_card_resource\<lparr>ca_card_number := ''123''\<rparr>"

definition example_short_env :: env where
  "example_short_env = example_env\<lparr>api_card := (\<lambda>log c. Inr example_short_card)\<rparr>"

section \<open>Properties\<close>

subsection \<open>Deleting a charge\<close>

text \<open>
  C4.  The delete path of a Charge always fails: the pre-delete hook does nothing but
  call \<^verbatim>\<open>remove()\<close>, and \<^verbatim>\<open>Charge.remove()\<close> raises \<^verbatim>\<open>NotImplementedError\<close> whatever the
  charge and the remote service are, with the charge untouched and no remote call made
  (so no remote delete is issued).
\<close>

theorem charge_delete_always_fails:
  "charge_predelete env charge log = Charge_remove env charge log \<and>
   Charge_remove env charge log = (Inl NotImplementedError, charge, log) \<and>
   raised (charge_predelete env charge log) = Some NotImplementedError \<and>
   calls_of (charge_predelete env charge log) = log"
  by (simp add: charge_predelete_def Charge_remove_def raised_def calls_of_def)

subsection \<open>Capturing a charge that is not a card payment\<close>

text \<open>
  C7.  When the method of a Charge is not the card-payment method, \<^verbatim>\<open>capture()\<close> raises
  \<^verbatim>\<open>OpenpayObjectDoesNotExist\<close>, whether or not the remote identifier is set, leaves the
  charge as it is and makes no remote call.
\<close>

theorem capture_other_method_fails:
  "method charge \<noteq> charge_method_card env \<Longrightarrow>
   Charge_capture env charge log = (Inl OpenpayObjectDoesNotExist, charge, log)"
  by (simp add: Charge_capture_def)

theorem capture_other_method_fails_witness:
  "method (example_charge\<lparr>method := ''store''\<rparr>) \<noteq> charge_method_card example_env \<and>
   openpay_id (example_charge\<lparr>method := ''store''\<rparr>) \<noteq> [] \<and>
   Charge_capture example_env (example_charge\<lparr>method := ''store''\<rparr>) [] =
     (Inl OpenpayObjectDoesNotExist, example_charge\<lparr>method := ''store''\<rparr>, [])"
proof -
  have h: "method (example_charge\<lparr>method := ''store''\<rparr>) \<noteq> charge_method_card example_env"
    by (simp add: example_env_def)
  show ?thesis
    using h capture_other_method_fails [OF h, of "[]"] by (simp add: example_charge_def)
qed

subsection \<open>Removing what was never pushed\<close>

text \<open>
  C10.  For a Customer, Card, Plan or Subscription whose remote identifier is empty,
  \<^verbatim>\<open>remove()\<close> returns without raising, makes no remote call and leaves the instance as
  it is; \<^verbatim>\<open>retrieve()\<close> in the same state raises.
\<close>

theorem remove_unsynchronized_is_noop:
  assumes "openpay_id cust = []" and "openpay_id crd = []"
    and "openpay_id pln = []" and "openpay_id sub = []"
  shows "Customer_remove env cust log = (Inr (), cust, log) \<and>
         Card_remove env crd log = (Inr (), crd, log) \<and>
         Plan_remove env pln log = (Inr (), pln, log) \<and>
         Subscription_remove env sub log = (Inr (), sub, log) \<and>
         raised (Customer_retrieve env cust log) \<noteq> None \<and>
         raised (Card_retrieve env crd log) \<noteq> None \<and>
         raised (Plan_retrieve env pln log) \<noteq> None \<and>
         raised (Subscription_retrieve env sub log) \<noteq> None"
  using assms
  by (simp add: Customer_remove_def Card_remove_def Plan_remove_def Subscription_remove_def
      Customer_retrieve_def Card_retrieve_def Plan_retrieve_def Subscription_retrieve_def
      raised_def split: option.split)

theorem remove_unsynchronized_is_noop_witness:
  "Customer_remove example_env example_new_customer [] = (Inr (), example_new_customer, []) \<and>
   Card_remove example_env (example_card\<lparr>openpay_id := []\<rparr>) [] =
     (Inr (), example_card\<lparr>openpay_id := []\<rparr>, []) \<and>
   Plan_remove example_env example_new_plan [] = (Inr (), example_new_plan, []) \<and>
   Subscription_remove example_env example_new_subscription [] =
     (Inr (), example_new_subscription, []) \<and>
   raised (Customer_retrieve example_env example_new_customer []) \<noteq> None"
proof -
  have "openpay_id example_new_customer = []"
    and "openpay_id (example_card\<lparr>openpay_id := []\<rparr>) = []"
    and "openpay_id example_new_plan = []"
    and "openpay_id example_new_subscription = []"
    by (simp_all add: example_new_customer_def example_new_plan_def
        example_new_subscription_def)
  from remove_unsynchronized_is_noop [OF this, of example_env "[]"] show ?thesis by simp
qed

subsection \<open>Retrieving under a customer that was never pushed\<close>

text \<open>
  C3.  For a Card, Subscription or Charge whose customer has an empty remote
  identifier, \<^verbatim>\<open>retrieve()\<close> raises \<^verbatim>\<open>OpenpayNoCustomer\<close> with no remote call made and the
  instance unchanged, whatever the instance's own remote identifier is: the customer is
  checked first.
\<close>

theorem retrieve_without_customer_linkage:
  assumes "Card.customer crd = Some c1" and "openpay_id c1 = []"
    and "Subscription.customer sub = Some c2" and "openpay_id c2 = []"
    and "Charge.customer chg = Some c3" and "openpay_id c3 = []"
  shows "Card_retrieve env crd log = (Inl OpenpayNoCustomer, crd, log) \<and>
         Subscription_retrieve env sub log = (Inl OpenpayNoCustomer, sub, log) \<and>
         Charge_retrieve env chg log = (Inl OpenpayNoCustomer, chg, log)"
  using assms by (simp add: Card_retrieve_def Subscription_retrieve_def Charge_retrieve_def)

theorem retrieve_without_customer_linkage_witness:
  "openpay_id example_orphan_card \<noteq> [] \<and>
   Card_retrieve example_env example_orphan_card [] =
     (Inl OpenpayNoCustomer, example_orphan_card, []) \<and>
   Subscription_retrieve example_env
       (example_new_subscription\<lparr>Subscription.customer := Some example_new_customer\<rparr>) [] =
     (Inl OpenpayNoCustomer,
      example_new_subscription\<lparr>Subscription.customer := Some example_new_customer\<rparr>, []) \<and>
   Charge_retrieve example_env
       (example_charge\<lparr>Charge.customer := Some example_new_customer\<rparr>) [] =
     (Inl OpenpayNoCustomer, example_charge\<lparr>Charge.customer := Some example_new_customer\<rparr>, [])"
proof -
  have c: "openpay_id example_new_customer = []"
    by (simp add: example_new_customer_def)
  have "Card.customer example_orphan_card = Some example_new_customer"
    by (simp add: example_orphan_card_def)
  moreover have "Subscription.customer
      (example_new_subscription\<lparr>Subscription.customer := Some example_new_customer\<rparr>) =
      Some example_new_customer"
    by simp
  moreover have "Charge.customer (example_charge\<lparr>Charge.customer := Some example_new_customer\<rparr>) =
      Some example_new_customer"
    by simp
  ultimately show ?thesis
    using retrieve_without_customer_linkage [of example_orphan_card example_new_customer
        "example_new_subscription\<lparr>Subscription.customer := Some example_new_customer\<rparr>"
        example_new_customer
        "example_charge\<lparr>Charge.customer := Some example_new_customer\<rparr>"
        example_new_customer example_env "[]"] c
    by (simp add: example_orphan_card_def example_card_def)
qed

subsection \<open>The admin actions\<close>

text \<open>
  C6 (the code departs from the claim).  On a queryset that is not empty, the capture
  action looks up \<^verbatim>\<open>capture_charge\<close> on the first charge and the refund action looks up
  \<^verbatim>\<open>refund_charge\<close>; class \<^verbatim>\<open>Charge\<close> defines \<^verbatim>\<open>capture\<close> and \<^verbatim>\<open>refund\<close> and neither of
  those names, so both actions raise \<^verbatim>\<open>AttributeError\<close> at once: no charge is captured
  or refunded and no remote call is made.
\<close>

theorem admin_actions_raise_attribute_error:
  "ChargeAdmin_capture env (charge # queryset) log =
     (Inl (AttributeError ''capture_charge''), charge # queryset, log) \<and>
   ChargeAdmin_refund env (charge # queryset) log =
     (Inl (AttributeError ''refund_charge''), charge # queryset, log)"
  by (simp add: ChargeAdmin_capture_def ChargeAdmin_refund_def Charge_call_def Charge_methods_def)

subsection \<open>The remote identifier is written once\<close>

text \<open>No operation but \<^verbatim>\<open>push\<close> assigns \<^verbatim>\<open>openpay_id\<close>, whether it returns or raises.\<close>

lemma Customer_retrieve_id:
  "openpay_id (self_of (Customer_retrieve env x log)) = openpay_id x"
  by (simp add: Customer_retrieve_def self_of_def split: sum.splits)

lemma Customer_pull_id:
  "openpay_id (self_of (Customer_pull env x log)) = openpay_id x"
  by (simp add: Customer_pull_def Customer_retrieve_def then_run_def self_of_def Let_def
      split: sum.splits option.splits)

lemma Customer_remove_id:
  "openpay_id (self_of (Customer_remove env x log)) = openpay_id x"
  by (simp add: Customer_remove_def Customer_retrieve_def then_run_def self_of_def
      split: sum.splits option.splits)

lemma Card_retrieve_id:
  "openpay_id (self_of (Card_retrieve env x log)) = openpay_id x"
  by (simp add: Card_retrieve_def self_of_def Let_def split: sum.splits option.splits)

lemma Card_pull_id:
  "openpay_id (self_of (Card_pull env x log)) = openpay_id x"
  by (simp add: Card_pull_def Card_retrieve_def then_run_def self_of_def Let_def
      split: sum.splits option.splits)

lemma Card_remove_id:
  "openpay_id (self_of (Card_remove env x log)) = openpay_id x"
  by (simp add: Card_remove_def Card_retrieve_def then_run_def self_of_def Let_def
      split: sum.splits option.splits)

lemma Plan_retrieve_id:
  "openpay_id (self_of (Plan_retrieve env x log)) = openpay_id x"
  by (simp add: Plan_retrieve_def self_of_def split: sum.splits)

lemma Plan_pull_id:
  "openpay_id (self_of (Plan_pull env x log)) = openpay_id x"
  by (simp add: Plan_pull_def Plan_retrieve_def then_run_def self_of_def Let_def
      split: sum.splits option.splits)

lemma Plan_remove_id:
  "openpay_id (self_of (Plan_remove env x log)) = openpay_id x"
  by (simp add: Plan_remove_def Plan_retrieve_def then_run_def self_of_def
      split: sum.splits option.splits)

lemma Subscription_retrieve_id:
  "openpay_id (self_of (Subscription_retrieve env x log)) = openpay_id x"
  by (simp add: Subscription_retrieve_def self_of_def Let_def split: sum.splits option.splits)

lemma Subscription_pull_id:
  "openpay_id (self_of (Subscription_pull env x log)) = openpay_id x"
  by (simp add: Subscription_pull_def Subscription_retrieve_def then_run_def self_of_def Let_def
      split: sum.splits option.splits)

lemma Subscription_remove_id:
  "openpay_id (self_of (Subscription_remove env x log)) = openpay_id x"
  by (simp add: Subscription_remove_def Subscription_retrieve_def then_run_def self_of_def Let_def
      split: sum.splits option.splits)

lemma Charge_retrieve_id:
  "openpay_id (self_of (Charge_retrieve env x log)) = openpay_id x"
  by (simp add: Charge_retrieve_def self_of_def Let_def split: sum.splits option.splits)

lemma Charge_pull_id:
  "openpay_id (self_of (Charge_pull env x log)) = openpay_id x"
  by (simp add: Charge_pull_def Charge_retrieve_def then_run_def self_of_def Let_def
      split: sum.splits option.splits)

text \<open>With a remote identifier present, \<^verbatim>\<open>push\<close> takes the branch that does not assign it.\<close>

lemma Customer_push_id:
  "openpay_id x \<noteq> [] \<Longrightarrow> openpay_id (self_of (Customer_push env x log)) = openpay_id x"
  by (simp add: Customer_push_def Customer_retrieve_def then_run_def self_of_def Let_def
      split: sum.splits option.splits)

lemma Plan_push_id:
  "openpay_id x \<noteq> [] \<Longrightarrow> openpay_id (self_of (Plan_push env x log)) = openpay_id x"
  by (simp add: Plan_push_def Plan_retrieve_def then_run_def self_of_def Let_def
      split: sum.splits option.splits)

lemma Subscription_push_id:
  "openpay_id x \<noteq> [] \<Longrightarrow> openpay_id (self_of (Subscription_push env x log)) = openpay_id x"
  by (simp add: Subscription_push_def Subscription_save_remote_def Subscription_retrieve_def
      then_run_def self_of_def Let_def split: sum.splits option.splits)

lemma Charge_push_id:
  "openpay_id x \<noteq> [] \<Longrightarrow> openpay_id (self_of (Charge_push env x log)) = openpay_id x"
  by (simp add: Charge_push_def self_of_def)

lemma Charge_capture_id:
  "openpay_id (self_of (Charge_capture env x log)) = openpay_id x"
  by (simp add: Charge_capture_def Charge_retrieve_def then_run_def self_of_def Let_def
      split: sum.splits option.splits)

lemma Charge_refund_id:
  "openpay_id (self_of (Charge_refund env x log)) = openpay_id x"
  by (simp add: Charge_refund_def Charge_save_def charge_presave_def Charge_push_def
      Charge_retrieve_def then_run_def self_of_def Let_def split: sum.splits option.splits)

text \<open>
  C9.  Once the remote identifier of an instance is not empty, no operation gives it
  another value: \<^verbatim>\<open>push\<close>, \<^verbatim>\<open>pull\<close>, \<^verbatim>\<open>retrieve\<close> and \<^verbatim>\<open>remove\<close> of Customer, Card, Plan,
  Subscription and Charge, and \<^verbatim>\<open>capture\<close> and \<^verbatim>\<open>refund\<close> of Charge, leave it as it was,
  whether they return or raise and whatever the remote service answers.
\<close>

theorem remote_identifier_never_reassigned:
  assumes "openpay_id cust \<noteq> []" and "openpay_id crd \<noteq> []" and "openpay_id pln \<noteq> []"
    and "openpay_id sub \<noteq> []" and "openpay_id chg \<noteq> []"
  shows "openpay_id (self_of (Customer_push env cust log)) = openpay_id cust \<and>
         openpay_id (self_of (Customer_pull env cust log)) = openpay_id cust \<and>
         openpay_id (self_of (Customer_retrieve env cust log)) = openpay_id cust \<and>
         openpay_id (self_of (Customer_remove env cust log)) = openpay_id cust \<and>
         openpay_id (self_of (Card_push env crd log)) = openpay_id crd \<and>
         openpay_id (self_of (Card_pull env crd log)) = openpay_id crd \<and>
         openpay_id (self_of (Card_retrieve env crd log)) = openpay_id crd \<and>
         openpay_id (self_of (Card_remove env crd log)) = openpay_id crd \<and>
         openpay_id (self_of (Plan_push env pln log)) = openpay_id pln \<and>
         openpay_id (self_of (Plan_pull env pln log)) = openpay_id pln \<and>
         openpay_id (self_of (Plan_retrieve env pln log)) = openpay_id pln \<and>
         openpay_id (self_of (Plan_remove env pln log)) = openpay_id pln \<and>
         openpay_id (self_of (Subscription_push env sub log)) = openpay_id sub \<and>
         openpay_id (self_of (Subscription_pull env sub log)) = openpay_id sub \<and>
         openpay_id (self_of (Subscription_retrieve env sub log)) = openpay_id sub \<and>
         openpay_id (self_of (Subscription_remove env sub log)) = openpay_id sub \<and>
         openpay_id (self_of (Charge_push env chg log)) = openpay_id chg \<and>
         openpay_id (self_of (Charge_pull env chg log)) = openpay_id chg \<and>
         openpay_id (self_of (Charge_retrieve env chg log)) = openpay_id chg \<and>
         openpay_id (self_of (Charge_remove env chg log)) = openpay_id chg \<and>
         openpay_id (self_of (Charge_capture env chg log)) = openpay_id chg \<and>
         openpay_id (self_of (Charge_refund env chg log)) = openpay_id chg"
proof -
  have "openpay_id (self_of (Card_push env crd log)) = openpay_id crd"
    by (simp add: Card_push_def self_of_def)
  moreover have "openpay_id (self_of (Charge_remove env chg log)) = openpay_id chg"
    by (simp add: Charge_remove_def self_of_def)
  ultimately show ?thesis
    using assms
    by (simp only: Customer_push_id Customer_pull_id Customer_retrieve_id Customer_remove_id
        Card_pull_id Card_retrieve_id Card_remove_id
        Plan_push_id Plan_pull_id Plan_retrieve_id Plan_remove_id
        Subscription_push_id Subscription_pull_id Subscription_retrieve_id Subscription_remove_id
        Charge_push_id Charge_pull_id Charge_retrieve_id Charge_capture_id Charge_refund_id
        simp_thms not_False_eq_True)
qed

theorem remote_identifier_never_reassigned_witness:
  "openpay_id example_customer \<noteq> [] \<and> openpay_id example_card \<noteq> [] \<and>
   openpay_id example_plan \<noteq> [] \<and> openpay_id example_subscription \<noteq> [] \<and>
   openpay_id example_charge \<noteq> [] \<and>
   openpay_id (self_of (Customer_push example_env example_customer [])) = ''cus1'' \<and>
   openpay_id (self_of (Card_pull example_env example_card [])) = ''card1'' \<and>
   openpay_id (self_of (Plan_push example_env example_plan [])) = ''plan1'' \<and>
   openpay_id (self_of (Subscription_push example_env example_subscription [])) = ''sub1'' \<and>
   openpay_id (self_of (Charge_push example_env example_charge [])) = ''chg1'' \<and>
   openpay_id (self_of (Charge_capture example_env example_charge [])) = ''chg1'' \<and>
   openpay_id (self_of (Charge_refund example_env example_charge [])) = ''chg1''"
proof -
  have ids: "openpay_id example_customer = ''cus1''" "openpay_id example_card = ''card1''"
    "openpay_id example_plan = ''plan1''" "openpay_id example_subscription = ''sub1''"
    "openpay_id example_charge = ''chg1''"
    by (simp_all add: example_customer_def example_card_def example_plan_def
        example_subscription_def example_charge_def)
  have "openpay_id example_customer \<noteq> []" and "openpay_id example_card \<noteq> []"
    and "openpay_id example_plan \<noteq> []" and "openpay_id example_subscription \<noteq> []"
    and "openpay_id example_charge \<noteq> []"
    by (simp_all add: ids)
  from remote_identifier_never_reassigned [OF this, of example_env "[]"] show ?thesis
    by (simp add: ids)
qed

subsection \<open>Retrieving what was never pushed\<close>

text \<open>
  C2 as stated fails: a Card with an empty remote identifier whose customer has no
  remote identifier either raises \<^verbatim>\<open>OpenpayNoCustomer\<close>, not
  \<^verbatim>\<open>OpenpayObjectDoesNotExist\<close>, because \<^verbatim>\<open>Card.retrieve\<close> tests the customer first.
\<close>

theorem retrieve_unsynchronized_counterexample:
  "openpay_id (example_orphan_card\<lparr>openpay_id := []\<rparr>) = [] \<and>
   Card_retrieve example_env (example_orphan_card\<lparr>openpay_id := []\<rparr>) [] =
     (Inl OpenpayNoCustomer, example_orphan_card\<lparr>openpay_id := []\<rparr>, []) \<and>
   raised (Card_retrieve example_env (example_orphan_card\<lparr>openpay_id := []\<rparr>) []) \<noteq>
     Some OpenpayObjectDoesNotExist"
  by (simp add: Card_retrieve_def raised_def example_orphan_card_def example_card_def
      example_new_customer_def)

text \<open>
  C2, amended.  With an empty remote identifier, \<^verbatim>\<open>retrieve()\<close> of a Customer or a Plan
  raises \<^verbatim>\<open>OpenpayObjectDoesNotExist\<close>; \<^verbatim>\<open>retrieve()\<close> of a Card, Subscription or Charge
  raises \<^verbatim>\<open>OpenpayObjectDoesNotExist\<close> when its customer has a remote identifier,
  \<^verbatim>\<open>OpenpayNoCustomer\<close> when the remote identifier of its customer is empty, and
  \<^verbatim>\<open>RelatedObjectDoesNotExist\<close> when no customer is set; \<^verbatim>\<open>retrieve()\<close> of an Address,
  which keeps the method of the base class, raises \<^verbatim>\<open>NotImplementedError\<close>.  In every
  case no remote call is made and the instance stays as it is.
\<close>

theorem retrieve_unsynchronized:
  assumes "openpay_id cust = []" and "openpay_id pln = []" and "openpay_id crd = []"
    and "openpay_id sub = []" and "openpay_id chg = []"
  shows "Address_retrieve env addr log = (Inl NotImplementedError, addr, log) \<and>
         Customer_retrieve env cust log = (Inl OpenpayObjectDoesNotExist, cust, log) \<and>
         Plan_retrieve env pln log = (Inl OpenpayObjectDoesNotExist, pln, log) \<and>
         Card_retrieve env crd log =
           (Inl (case Card.customer crd of
                   None \<Rightarrow> RelatedObjectDoesNotExist
                 | Some c \<Rightarrow> if openpay_id c = [] then OpenpayNoCustomer
                            else OpenpayObjectDoesNotExist), crd, log) \<and>
         Subscription_retrieve env sub log =
           (Inl (case Subscription.customer sub of
                   None \<Rightarrow> RelatedObjectDoesNotExist
                 | Some c \<Rightarrow> if openpay_id c = [] then OpenpayNoCustomer
                            else OpenpayObjectDoesNotExist), sub, log) \<and>
         Charge_retrieve env chg log =
           (Inl (case Charge.customer chg of
                   None \<Rightarrow> RelatedObjectDoesNotExist
                 | Some c \<Rightarrow> if openpay_id c = [] then OpenpayNoCustomer
                            else OpenpayObjectDoesNotExist), chg, log)"
  using assms
  by (simp add: Address_retrieve_def Customer_retrieve_def Plan_retrieve_def Card_retrieve_def
      Subscription_retrieve_def Charge_retrieve_def split: option.split)

theorem retrieve_unsynchronized_witness:
  "Address_retrieve example_env example_address [] =
     (Inl NotImplementedError, example_address, []) \<and>
   Customer_retrieve example_env example_new_customer [] =
     (Inl OpenpayObjectDoesNotExist, example_new_customer, []) \<and>
   Plan_retrieve example_env example_new_plan [] =
     (Inl OpenpayObjectDoesNotExist, example_new_plan, []) \<and>
   Card_retrieve example_env (example_card\<lparr>openpay_id := []\<rparr>) [] =
     (Inl OpenpayObjectDoesNotExist, example_card\<lparr>openpay_id := []\<rparr>, []) \<and>
   Subscription_retrieve example_env example_new_subscription [] =
     (Inl OpenpayObjectDoesNotExist, example_new_subscription, []) \<and>
   Charge_retrieve example_env (example_new_charge\<lparr>Charge.customer := None\<rparr>) [] =
     (Inl RelatedObjectDoesNotExist, example_new_charge\<lparr>Charge.customer := None\<rparr>, [])"
proof -
  have "openpay_id example_new_customer = []" and "openpay_id example_new_plan = []"
    and "openpay_id (example_card\<lparr>openpay_id := []\<rparr>) = []"
    and "openpay_id example_new_subscription = []"
    and "openpay_id (example_new_charge\<lparr>Charge.customer := None\<rparr>) = []"
    by (simp_all add: example_new_customer_def example_new_plan_def
        example_new_subscription_def example_new_charge_def)
  from retrieve_unsynchronized [OF this, of example_env example_address "[]"] show ?thesis
    by (simp add: example_card_def example_new_subscription_def example_customer_def)
qed

subsection \<open>What a card keeps of the card number\<close>

lemma length_last_chars: "length (last_chars n s) = min n (length s)"
  by (simp add: last_chars_def)

lemma suffix_last_chars: "suffix (last_chars n s) s"
  by (simp add: last_chars_def suffix_drop)

lemma last_chars_short: "length s \<le> n \<Longrightarrow> last_chars n s = s"
  by (simp add: last_chars_def)

lemma last_chars_proper: "n < length s \<Longrightarrow> last_chars n s \<noteq> s"
proof
  assume "n < length s" and "last_chars n s = s"
  then have "length (last_chars n s) = length s" by simp
  with \<open>n < length s\<close> show False by (simp add: length_last_chars)
qed

text \<open>
  C5 as stated fails: when the remote card number has fewer than 4 characters, the
  card that \<^verbatim>\<open>tokenized_create\<close> builds holds the whole remote number, which is not 4
  characters long.
\<close>

theorem card_keeps_last_four_counterexample:
  "Card_tokenized_create example_short_env ''cus1'' ''tok1'' ''dev1'' ''mine'' [] =
     (Inr (example_card\<lparr>creation_date := Some (Datetime (Date 2017 3 1) 10 0 0 0 None),
                        number := ''123'', Card.openpay_obj := Some example_short_card\<rparr>),
      [CardCreate ''cus1'' ''tok1'' ''dev1'']) \<and>
   api_card example_short_env [] (CardCreate ''cus1'' ''tok1'' ''dev1'') = Inr example_short_card \<and>
   ca_card_number example_short_card = ''123'' \<and>
   length (ca_card_number example_short_card) \<noteq> 4"
  by (simp add: Card_tokenized_create_def Card_save_def card_presave_def objects_get_def
      example_short_env_def example_short_card_def example_env_def example_card_resource_def
      example_card_def example_customer_def example_stamp_def last_chars_def)

text \<open>
  C5, amended.  The card that \<^verbatim>\<open>tokenized_create\<close> builds, and a card after \<^verbatim>\<open>pull()\<close> has
  fetched the remote card, hold \<^verbatim>\<open>card_number[-4:]\<close>, \<^verbatim>\<open>expiration_month[-2:]\<close> and
  \<^verbatim>\<open>expiration_year[-2:]\<close> of the remote card: a suffix of the remote value, which is its
  last 4 (2) characters when it has that many, differs from the remote value when that is
  longer, and is the whole remote value when that is shorter.  The remote card is the
  answer to the create call of the factory, made from the customer identifier, the token
  identifier and the device session identifier; for \<^verbatim>\<open>pull()\<close> it is the answer to the card
  lookup under the customer.  The factory returns that card whenever the create call, the
  customer row lookup, the date parser and the validation succeed; \<^verbatim>\<open>pull()\<close> stores the
  three values whenever the two remote lookups succeed, and returns only then.
\<close>

theorem card_keeps_last_four:
  "(\<forall>made l1. Card_tokenized_create env1 customerId tokenId deviceId al log1 = (Inr made, l1) \<longrightarrow>
      (\<exists>card_op. api_card env1 log1 (CardCreate customerId tokenId deviceId) = Inr card_op \<and>
         number made = last_chars 4 (ca_card_number card_op) \<and>
         month made = last_chars 2 (ca_expiration_month card_op) \<and>
         year made = last_chars 2 (ca_expiration_year card_op))) \<and>
   (\<forall>card_op c d.
      api_card env1 log1 (CardCreate customerId tokenId deviceId) = Inr card_op \<and>
      objects_get (Customer_objects env1) customerId = Inr c \<and>
      parse_datetime env1 (ca_creation_date card_op) = Inr d \<and>
      full_clean env1 (CardInstance
        \<lparr>openpay_id = ca_id card_op, creation_date = d, alias = al,
         card_type = ca_type card_op, holder = ca_holder_name card_op,
         number = last_chars 4 (ca_card_number card_op),
         month = last_chars 2 (ca_expiration_month card_op),
         year = last_chars 2 (ca_expiration_year card_op),
         Card.customer = Some c, Card.openpay_obj = Some card_op\<rparr>) \<longrightarrow>
      Card_tokenized_create env1 customerId tokenId deviceId al log1 =
        (Inr \<lparr>openpay_id = ca_id card_op, creation_date = d, alias = al,
              card_type = ca_type card_op, holder = ca_holder_name card_op,
              number = last_chars 4 (ca_card_number card_op),
              month = last_chars 2 (ca_expiration_month card_op),
              year = last_chars 2 (ca_expiration_year card_op),
              Card.customer = Some c, Card.openpay_obj = Some card_op\<rparr>,
         log1 @ [CardCreate customerId tokenId deviceId])) \<and>
   (\<forall>c ch h.
      Card.customer crd = Some c \<and> openpay_id c \<noteq> [] \<and> openpay_id crd \<noteq> [] \<and>
      api_customer env2 log2 (CustomerRetrieve (openpay_id c)) = Inr ch \<and>
      api_card env2 (log2 @ [CustomerRetrieve (openpay_id c)])
        (CardRetrieve ch (openpay_id crd)) = Inr h \<longrightarrow>
      number (self_of (Card_pull env2 crd log2)) = last_chars 4 (ca_card_number h) \<and>
      month (self_of (Card_pull env2 crd log2)) = last_chars 2 (ca_expiration_month h) \<and>
      year (self_of (Card_pull env2 crd log2)) = last_chars 2 (ca_expiration_year h)) \<and>
   (raised (Card_pull env2 crd log2) = None \<longrightarrow>
      (\<exists>c ch h.
         Card.customer crd = Some c \<and> openpay_id c \<noteq> [] \<and> openpay_id crd \<noteq> [] \<and>
         api_customer env2 log2 (CustomerRetrieve (openpay_id c)) = Inr ch \<and>
         api_card env2 (log2 @ [CustomerRetrieve (openpay_id c)])
           (CardRetrieve ch (openpay_id crd)) = Inr h)) \<and>
   (\<forall>n s. suffix (last_chars n s) s \<and> length (last_chars n s) = min n (length s) \<and>
      (n < length s \<longrightarrow> last_chars n s \<noteq> s) \<and>
      (length s \<le> n \<longrightarrow> last_chars n s = s))"
proof (intro conjI)
  show "\<forall>made l1. Card_tokenized_create env1 customerId tokenId deviceId al log1 = (Inr made, l1) \<longrightarrow>
      (\<exists>card_op. api_card env1 log1 (CardCreate customerId tokenId deviceId) = Inr card_op \<and>
         number made = last_chars 4 (ca_card_number card_op) \<and>
         month made = last_chars 2 (ca_expiration_month card_op) \<and>
         year made = last_chars 2 (ca_expiration_year card_op))"
    by (auto simp: Card_tokenized_create_def Card_save_def card_presave_def Let_def
        split: sum.splits if_splits)
next
  show "\<forall>card_op c d.
      api_card env1 log1 (CardCreate customerId tokenId deviceId) = Inr card_op \<and>
      objects_get (Customer_objects env1) customerId = Inr c \<and>
      parse_datetime env1 (ca_creation_date card_op) = Inr d \<and>
      full_clean env1 (CardInstance
        \<lparr>openpay_id = ca_id card_op, creation_date = d, alias = al,
         card_type = ca_type card_op, holder = ca_holder_name card_op,
         number = last_chars 4 (ca_card_number card_op),
         month = last_chars 2 (ca_expiration_month card_op),
         year = last_chars 2 (ca_expiration_year card_op),
         Card.customer = Some c, Card.openpay_obj = Some card_op\<rparr>) \<longrightarrow>
      Card_tokenized_create env1 customerId tokenId deviceId al log1 =
        (Inr \<lparr>openpay_id = ca_id card_op, creation_date = d, alias = al,
              card_type = ca_type card_op, holder = ca_holder_name card_op,
              number = last_chars 4 (ca_card_number card_op),
              month = last_chars 2 (ca_expiration_month card_op),
              year = last_chars 2 (ca_expiration_year card_op),
              Card.customer = Some c, Card.openpay_obj = Some card_op\<rparr>,
         log1 @ [CardCreate customerId tokenId deviceId])"
    by (simp add: Card_tokenized_create_def Card_save_def card_presave_def)
next
  show "\<forall>c ch h.
      Card.customer crd = Some c \<and> openpay_id c \<noteq> [] \<and> openpay_id crd \<noteq> [] \<and>
      api_customer env2 log2 (CustomerRetrieve (openpay_id c)) = Inr ch \<and>
      api_card env2 (log2 @ [CustomerRetrieve (openpay_id c)])
        (CardRetrieve ch (openpay_id crd)) = Inr h \<longrightarrow>
      number (self_of (Card_pull env2 crd log2)) = last_chars 4 (ca_card_number h) \<and>
      month (self_of (Card_pull env2 crd log2)) = last_chars 2 (ca_expiration_month h) \<and>
      year (self_of (Card_pull env2 crd log2)) = last_chars 2 (ca_expiration_year h)"
    by (simp add: Card_pull_def Card_retrieve_def then_run_def self_of_def Let_def
        split: sum.splits)
next
  show "raised (Card_pull env2 crd log2) = None \<longrightarrow>
      (\<exists>c ch h.
         Card.customer crd = Some c \<and> openpay_id c \<noteq> [] \<and> openpay_id crd \<noteq> [] \<and>
         api_customer env2 log2 (CustomerRetrieve (openpay_id c)) = Inr ch \<and>
         api_card env2 (log2 @ [CustomerRetrieve (openpay_id c)])
           (CardRetrieve ch (openpay_id crd)) = Inr h)"
    by (auto simp: Card_pull_def Card_retrieve_def then_run_def raised_def Let_def
        split: sum.splits option.splits if_splits)
next
  show "\<forall>n s. suffix (last_chars n s) s \<and> length (last_chars n s) = min n (length s) \<and>
      (n < length s \<longrightarrow> last_chars n s \<noteq> s) \<and>
      (length s \<le> n \<longrightarrow> last_chars n s = s)"
    using suffix_last_chars length_last_chars last_chars_proper last_chars_short by blast
qed

theorem card_keeps_last_four_witness:
  "Card_tokenized_create example_env ''cus1'' ''tok1'' ''dev1'' ''mine'' [] =
     (Inr (example_card\<lparr>creation_date := Some (Datetime (Date 2017 3 1) 10 0 0 0 None),
                        Card.openpay_obj := Some example_card_resource\<rparr>),
      [CardCreate ''cus1'' ''tok1'' ''dev1'']) \<and>
   ca_card_number example_card_resource = ''411111XXXXXX1111'' \<and>
   number (example_card\<lparr>creation_date := Some (Datetime (Date 2017 3 1) 10 0 0 0 None),
                      Card.openpay_obj := Some example_card_resource\<rparr>) = ''1111'' \<and>
   number (self_of (Card_pull example_env (example_card\<lparr>number := []\<rparr>) [])) = ''1111'' \<and>
   month (self_of (Card_pull example_env (example_card\<lparr>number := []\<rparr>) [])) = ''07'' \<and>
   year (self_of (Card_pull example_env (example_card\<lparr>number := []\<rparr>) [])) = ''29''"
proof -
  let ?p = "\<lparr>cu_id = ''cus1'', cu_name = ''Ana'', cu_last_name = Some ''Ruiz'',
             cu_email = ''ana@example.com'', cu_phone_number = None, cu_address = [],
             cu_creation_date = example_stamp\<rparr>"
  note t = card_keeps_last_four [of example_env "''cus1''" "''tok1''" "''dev1''" "''mine''" "[]"
      "example_card\<lparr>number := []\<rparr>" example_env "[]"]
  have made: "Card_tokenized_create example_env ''cus1'' ''tok1'' ''dev1'' ''mine'' [] =
     (Inr (example_card\<lparr>creation_date := Some (Datetime (Date 2017 3 1) 10 0 0 0 None),
                        Card.openpay_obj := Some example_card_resource\<rparr>),
      [CardCreate ''cus1'' ''tok1'' ''dev1''])"
    using t [THEN conjunct2, THEN conjunct1, rule_format, of example_card_resource
        example_customer "Some (Datetime (Date 2017 3 1) 10 0 0 0 None)"]
    by (simp add: objects_get_def example_env_def example_api_card_def
        example_card_resource_def example_card_def example_customer_def example_stamp_def
        last_chars_def)
  have pulled: "number (self_of (Card_pull example_env (example_card\<lparr>number := []\<rparr>) [])) =
      last_chars 4 (ca_card_number example_card_resource) \<and>
    month (self_of (Card_pull example_env (example_card\<lparr>number := []\<rparr>) [])) =
      last_chars 2 (ca_expiration_month example_card_resource) \<and>
    year (self_of (Card_pull example_env (example_card\<lparr>number := []\<rparr>) [])) =
      last_chars 2 (ca_expiration_year example_card_resource)"
    using t [THEN conjunct2, THEN conjunct2, THEN conjunct1, rule_format,
        of example_customer ?p example_card_resource]
    by (simp add: example_env_def example_api_card_def example_api_customer_def
        example_card_def example_customer_def)
  from made pulled show ?thesis
    by (simp add: example_card_resource_def example_card_def last_chars_def)
qed

subsection \<open>The first push\<close>


lemma Plan_pull_calls: "prefix log (calls_of (Plan_pull env x log))"
  by (simp add: Plan_pull_def Plan_retrieve_def then_run_def calls_of_def Let_def
      split: sum.splits option.splits)




lemma Plan_pull_stores_date:
  assumes "raised (Plan_pull env x log) = None"
  shows "\<exists>h. api_plan env log (PlanRetrieve (openpay_id x)) = Inr h \<and>
             parse_datetime env (pl_creation_date h) =
               Inr (creation_date (self_of (Plan_pull env x log)))"
  using assms
  by (auto simp: Plan_pull_def Plan_retrieve_def then_run_def raised_def self_of_def
      Let_def split: sum.splits option.splits if_splits)




lemma Plan_pull_looks_up:
  "openpay_id x \<noteq> [] \<Longrightarrow>
   prefix (log @ [PlanRetrieve (openpay_id x)]) (calls_of (Plan_pull env x log))"
  by (simp add: Plan_pull_def Plan_retrieve_def then_run_def calls_of_def Let_def
      split: sum.splits option.splits)


lemma Plan_first_push:
  "(openpay_id pln = [] \<longrightarrow>
      prefix (log @ [PlanCreate (name pln) (str_Decimal (Plan.amount pln)) (status_after_retry pln) (retry_times pln) (repeat_unit pln) (trial_days pln) (repeat_every pln)]) (calls_of (Plan_push env pln log)) \<and>
      (\<forall>e. api_plan env log (PlanCreate (name pln) (str_Decimal (Plan.amount pln)) (status_after_retry pln) (retry_times pln) (repeat_unit pln) (trial_days pln) (repeat_every pln)) = Inl e \<longrightarrow>
         Plan_push env pln log = (Inl e, pln, log @ [PlanCreate (name pln) (str_Decimal (Plan.amount pln)) (status_after_retry pln) (retry_times pln) (repeat_unit pln) (trial_days pln) (repeat_every pln)])) \<and>
      (\<forall>rp. api_plan env log (PlanCreate (name pln) (str_Decimal (Plan.amount pln)) (status_after_retry pln) (retry_times pln) (repeat_unit pln) (trial_days pln) (repeat_every pln)) = Inr rp \<longrightarrow>
         Plan_push env pln log =
           Plan_pull env (pln\<lparr>Plan.openpay_obj := Some rp, openpay_id := pl_id rp\<rparr>)
             (log @ [PlanCreate (name pln) (str_Decimal (Plan.amount pln)) (status_after_retry pln) (retry_times pln) (repeat_unit pln) (trial_days pln) (repeat_every pln)]) \<and>
         openpay_id (self_of (Plan_push env pln log)) = pl_id rp \<and>
         (pl_id rp \<noteq> [] \<longrightarrow>
            prefix (log @ [PlanCreate (name pln) (str_Decimal (Plan.amount pln)) (status_after_retry pln) (retry_times pln) (repeat_unit pln) (trial_days pln) (repeat_every pln), PlanRetrieve (pl_id rp)]) (calls_of (Plan_push env pln log))) \<and>
         (raised (Plan_push env pln log) = None \<longrightarrow>
            (\<exists>h. api_plan env (log @ [PlanCreate (name pln) (str_Decimal (Plan.amount pln)) (status_after_retry pln) (retry_times pln) (repeat_unit pln) (trial_days pln) (repeat_every pln)]) (PlanRetrieve (pl_id rp)) = Inr h \<and>
               parse_datetime env (pl_creation_date h) =
                 Inr (creation_date (self_of (Plan_push env pln log)))))))"
proof (intro impI conjI allI)
  fix rp
  assume "openpay_id pln = []" and "api_plan env log (PlanCreate (name pln) (str_Decimal (Plan.amount pln)) (status_after_retry pln) (retry_times pln) (repeat_unit pln) (trial_days pln) (repeat_every pln)) = Inr rp"
  then show eq: "Plan_push env pln log =
      Plan_pull env (pln\<lparr>Plan.openpay_obj := Some rp, openpay_id := pl_id rp\<rparr>)
        (log @ [PlanCreate (name pln) (str_Decimal (Plan.amount pln)) (status_after_retry pln) (retry_times pln) (repeat_unit pln) (trial_days pln) (repeat_every pln)])"
    by (simp add: Plan_push_def)
  show "openpay_id (self_of (Plan_push env pln log)) = pl_id rp"
    unfolding eq by (simp add: Plan_pull_id)
  show "raised (Plan_push env pln log) = None \<Longrightarrow>
      \<exists>h. api_plan env (log @ [PlanCreate (name pln) (str_Decimal (Plan.amount pln)) (status_after_retry pln) (retry_times pln) (repeat_unit pln) (trial_days pln) (repeat_every pln)]) (PlanRetrieve (pl_id rp)) = Inr h \<and>
         parse_datetime env (pl_creation_date h) =
           Inr (creation_date (self_of (Plan_push env pln log)))"
    unfolding eq
    using Plan_pull_stores_date
      [of env "pln\<lparr>Plan.openpay_obj := Some rp, openpay_id := pl_id rp\<rparr>"]
    by simp
  show "pl_id rp \<noteq> [] \<Longrightarrow>
      prefix (log @ [PlanCreate (name pln) (str_Decimal (Plan.amount pln)) (status_after_retry pln) (retry_times pln) (repeat_unit pln) (trial_days pln) (repeat_every pln), PlanRetrieve (pl_id rp)]) (calls_of (Plan_push env pln log))"
    unfolding eq
    using Plan_pull_looks_up
      [of "pln\<lparr>Plan.openpay_obj := Some rp, openpay_id := pl_id rp\<rparr>"
        "log @ [PlanCreate (name pln) (str_Decimal (Plan.amount pln)) (status_after_retry pln) (retry_times pln) (repeat_unit pln) (trial_days pln) (repeat_every pln)]" env]
    by simp
next
  assume "openpay_id pln = []"
  then show "prefix (log @ [PlanCreate (name pln) (str_Decimal (Plan.amount pln)) (status_after_retry pln) (retry_times pln) (repeat_unit pln) (trial_days pln) (repeat_every pln)]) (calls_of (Plan_push env pln log))"
    by (cases "api_plan env log (PlanCreate (name pln) (str_Decimal (Plan.amount pln)) (status_after_retry pln) (retry_times pln) (repeat_unit pln) (trial_days pln) (repeat_every pln))")
      (simp_all add: Plan_push_def calls_of_def Plan_pull_calls [unfolded calls_of_def])
qed (simp_all add: Plan_push_def)










subsection \<open>Decimal amounts survive the trip through text\<close>

text \<open>Digits, and the text of a natural number.\<close>

lemma of_char_digit_char: "n < 10 \<Longrightarrow> (of_char (digit_char n) :: nat) = 48 + n"
  by (simp add: digit_char_def)

lemma is_digit_digit_char: "n < 10 \<Longrightarrow> is_digit (digit_char n)"
  by (simp add: is_digit_def of_char_digit_char)

lemma digit_val_digit_char: "n < 10 \<Longrightarrow> digit_val (digit_char n) = n"
  by (simp add: digit_val_def of_char_digit_char)

lemma is_digit_not_special:
  assumes "is_digit c"
  shows "c \<noteq> CHR ''.''" "c \<noteq> CHR ''E''" "c \<noteq> CHR ''e''" "c \<noteq> CHR ''_''"
    "c \<noteq> CHR ''+''" "c \<noteq> CHR ''-''" "\<not> is_space c" "ascii_lower c = c"
  using assms by (auto simp: is_digit_def is_space_def ascii_lower_def)

lemma str_nat_digits: "c \<in> set (str_nat n) \<Longrightarrow> is_digit c"
proof (induction n arbitrary: c rule: str_nat.induct)
  case (1 n)
  show ?case
  proof (cases "n < 10")
    case True
    with "1.prems" show ?thesis by (simp add: str_nat.simps [of n] is_digit_digit_char)
  next
    case False
    with "1.prems" "1.IH" show ?thesis
      by (auto simp: str_nat.simps [of n] is_digit_digit_char)
  qed
qed

lemma str_nat_nonempty: "str_nat n \<noteq> []"
  by (subst str_nat.simps) simp

lemma int_of_digits_snoc: "int_of_digits (s @ [c]) = 10 * int_of_digits s + digit_val c"
  by (simp add: int_of_digits_def)

lemma int_of_digits_str_nat: "int_of_digits (str_nat n) = n"
proof (induction n rule: str_nat.induct)
  case (1 n)
  show ?case
  proof (cases "n < 10")
    case True
    then show ?thesis by (simp add: str_nat.simps [of n] int_of_digits_def digit_val_digit_char)
  next
    case False
    with "1.IH" show ?thesis
      by (simp add: str_nat.simps [of n] int_of_digits_snoc digit_val_digit_char)
  qed
qed

lemma digit_val_zero: "digit_val CHR ''0'' = 0"
  by (simp add: digit_val_def)

lemma is_digit_zero: "is_digit CHR ''0''"
  by (simp add: is_digit_def)

lemma int_of_digits_append_zeros:
  "int_of_digits (replicate k CHR ''0'' @ s) = int_of_digits s"
proof -
  have "foldl (\<lambda>a c. 10 * a + digit_val c) 0 (replicate k CHR ''0'') = 0"
    by (induction k) (simp_all add: digit_val_zero)
  then show ?thesis by (simp add: int_of_digits_def)
qed

lemma int_of_digits_zero_cons: "int_of_digits (CHR ''0'' # s) = int_of_digits s"
  using int_of_digits_append_zeros [of 1 s] by simp

lemma span_digits:
  assumes "\<forall>c\<in>set ds. is_digit c" and "r = [] \<or> \<not> is_digit (hd r)"
  shows "takeWhile is_digit (ds @ r) = ds" and "dropWhile is_digit (ds @ r) = r"
proof -
  from assms(2) have "takeWhile is_digit r = []" and "dropWhile is_digit r = r"
    by (cases r; auto)+
  with assms(1) show "takeWhile is_digit (ds @ r) = ds" and "dropWhile is_digit (ds @ r) = r"
    by (simp_all add: takeWhile_append2 dropWhile_append2)
qed

lemma split_sign_digit: "s \<noteq> [] \<Longrightarrow> is_digit (hd s) \<Longrightarrow> split_sign s = (False, s)"
  by (cases s) (auto simp: split_sign_def dest: is_digit_not_special)

lemma split_sign_str_sign:
  assumes "s \<noteq> []" and "hd s \<noteq> CHR ''-''" and "hd s \<noteq> CHR ''+''"
  shows "split_sign (str_sign neg @ s) = (neg, s)"
  using assms by (cases s) (auto simp: split_sign_def str_sign_def)

lemma split_sign_str_signed:
  "split_sign (str_signed k) = (k < 0, str_nat (nat \<bar>k\<bar>))"
  by (simp add: split_sign_def str_signed_def)

lemma match_exp_Nil: "match_exp [] = (0, [])"
  by (simp add: match_exp_def)

lemma takeWhile_str_nat: "takeWhile is_digit (str_nat n) = str_nat n"
  using span_digits(1) [of "str_nat n" "[]"] by (simp add: str_nat_digits)

lemma dropWhile_str_nat: "dropWhile is_digit (str_nat n) = []"
  using span_digits(2) [of "str_nat n" "[]"] by (simp add: str_nat_digits)

lemma match_exp_E: "match_exp (CHR ''E'' # str_signed k) = (k, [])"
  by (simp add: match_exp_def split_sign_str_signed takeWhile_str_nat dropWhile_str_nat
      str_nat_nonempty int_of_digits_str_nat Let_def)

lemma match_number_shape:
  assumes "ip \<noteq> []" and "\<forall>c\<in>set ip. is_digit c" and "\<forall>c\<in>set fp. is_digit c"
  shows "match_number (ip @ (if hf then CHR ''.'' # fp else []) @
           (if he then CHR ''E'' # str_signed k else [])) =
         Some (ip, if hf then fp else [], if he then k else 0)"
proof -
  let ?ex = "if he then CHR ''E'' # str_signed k else []"
  let ?fr = "if hf then CHR ''.'' # fp else []"
  have nd: "\<not> is_digit CHR ''.''" "\<not> is_digit CHR ''E''"
    by (simp_all add: is_digit_def)
  have ex: "?ex = [] \<or> \<not> is_digit (hd ?ex)"
    by (simp add: nd)
  have rest: "?fr @ ?ex = [] \<or> \<not> is_digit (hd (?fr @ ?ex))"
    by (simp add: nd)
  have look: "lookahead_number (ip @ ?fr @ ?ex)"
    using assms(1,2) by (cases ip) (simp_all add: lookahead_number_def)
  have ipart: "takeWhile is_digit (ip @ ?fr @ ?ex) = ip"
    "dropWhile is_digit (ip @ ?fr @ ?ex) = ?fr @ ?ex"
    using span_digits [OF assms(2) rest] by simp_all
  have frac: "match_frac (?fr @ ?ex) = (if hf then fp else [], ?ex)"
  proof (cases hf)
    case True
    then show ?thesis
      using span_digits [OF assms(3) ex] by (simp add: match_frac_def)
  next
    case False
    then show ?thesis by (simp add: match_frac_def)
  qed
  have expo: "match_exp ?ex = (if he then k else 0, [])"
    by (simp add: match_exp_Nil match_exp_E)
  show ?thesis
    unfolding match_number_def using look
    by (simp only: ipart frac expo Let_def prod.case not_True_eq_False if_False if_True simp_thms)
qed

text \<open>The text of a \<^verbatim>\<open>Decimal\<close> has no white space and no underscore.\<close>

lemma plain_append: "plain (a @ b) = (plain a \<and> plain b)"
  by (auto simp: plain_def)

lemma plain_Cons: "plain (c # s) = (\<not> is_space c \<and> c \<noteq> CHR ''_'' \<and> plain s)"
  by (simp add: plain_def)

lemma plain_Nil: "plain []"
  by (simp add: plain_def)

lemma plain_digits: "\<forall>c\<in>set s. is_digit c \<Longrightarrow> plain s"
  unfolding plain_def using is_digit_not_special(4,7) by blast

lemma plain_str_nat: "plain (str_nat n)"
  by (rule plain_digits) (simp add: str_nat_digits)

lemma plain_str_signed: "plain (str_signed k)"
  by (simp add: str_signed_def plain_append plain_Cons plain_Nil plain_str_nat is_space_def)

lemma plain_str_sign: "plain (str_sign neg)"
  by (simp add: str_sign_def plain_Cons plain_Nil is_space_def)

lemma strip_plain: "plain s \<Longrightarrow> strip s = s"
proof -
  assume a: "plain s"
  have d: "dropWhile is_space xs = xs" if "\<forall>c\<in>set xs. \<not> is_space c" for xs
    using that by (cases xs) simp_all
  from a have "\<forall>c\<in>set s. \<not> is_space c" "\<forall>c\<in>set (rev s). \<not> is_space c"
    by (simp_all add: plain_def)
  then show ?thesis by (simp add: strip_def d)
qed



lemma Decimal_of_str_plain:
  assumes "plain s" and "split_sign s = (neg, body)"
  shows "Decimal_of_str s = Decimal_of_match neg body"
proof -
  from assms(1) have "strip s = s" by (rule strip_plain)
  moreover from assms(1) have "filter (\<lambda>c. c \<noteq> CHR ''_'') s = s"
    by (simp add: filter_id_conv plain_def)
  ultimately show ?thesis
    by (simp add: Decimal_of_str_def assms(2))
qed

lemma Decimal_of_str_shape:
  assumes "ip \<noteq> []" and "\<forall>c\<in>set ip. is_digit c" and "\<forall>c\<in>set fp. is_digit c"
  shows "Decimal_of_str (str_sign neg @ ip @ (if hf then CHR ''.'' # fp else []) @
           (if he then CHR ''E'' # str_signed k else [])) =
         Inr (Finite neg (int_of_digits (ip @ (if hf then fp else [])))
                ((if he then k else 0) - int (length (if hf then fp else []))))"
proof -
  define body where "body = ip @ (if hf then CHR ''.'' # fp else []) @
           (if he then CHR ''E'' # str_signed k else [])"
  have sp: "\<not> is_space CHR ''.''" "\<not> is_space CHR ''E''"
    by (simp_all add: is_space_def)
  have "plain body"
    unfolding body_def
    by (simp add: plain_append plain_Cons plain_Nil plain_digits assms plain_str_signed sp)
  then have pl: "plain (str_sign neg @ body)"
    by (simp add: plain_append plain_str_sign)
  from assms(1,2) have hd: "is_digit (hd body)" and ne: "body \<noteq> []"
    unfolding body_def by (cases ip; simp)+
  from hd have "hd body \<noteq> CHR ''-''" "hd body \<noteq> CHR ''+''"
    using is_digit_not_special(5,6) by blast+
  with ne have ss: "split_sign (str_sign neg @ body) = (neg, body)"
    by (rule split_sign_str_sign)
  have m: "match_number body = Some (ip, if hf then fp else [], if he then k else 0)"
    unfolding body_def by (rule match_number_shape [OF assms])
  have "Decimal_of_match neg body =
      Inr (Finite neg (int_of_digits (ip @ (if hf then fp else [])))
             ((if he then k else 0) - int (length (if hf then fp else []))))"
    by (simp add: Decimal_of_match_def m)
  with Decimal_of_str_plain [OF pl ss] show ?thesis
    by (simp add: body_def)
qed

text \<open>
  Parsing what \<^verbatim>\<open>str\<close> printed gives the same sign, coefficient and exponent back:
  by the cases of \<^verbatim>\<open>__str__\<close> (plain notation with the point inside, before or after
  the digits; scientific notation with one or several digits).
\<close>

lemma digits_take: "\<forall>c\<in>set (take n (str_nat c0)). is_digit c"
  by (meson in_set_takeD str_nat_digits)

lemma digits_drop: "\<forall>c\<in>set (drop n (str_nat c0)). is_digit c"
  by (meson in_set_dropD str_nat_digits)

lemma digits_zeros: "\<forall>c\<in>set (replicate n CHR ''0'' @ str_nat c0). is_digit c"
  by (auto simp: is_digit_zero str_nat_digits)

lemma length_str_nat_pos: "0 < length (str_nat n)"
  using str_nat_nonempty [of n] by simp

lemma Decimal_of_str_Finite: "Decimal_of_str (str_Decimal (Finite neg c e)) = Inr (Finite neg c e)"
proof -
  define ds where "ds = str_nat c"
  define L where "L = int (length ds)"
  have Lpos: "0 < L" unfolding L_def ds_def using length_str_nat_pos [of c] by simp
  have dig: "\<forall>x\<in>set ds. is_digit x" unfolding ds_def by (simp add: str_nat_digits)
  have val: "int_of_digits ds = c" unfolding ds_def by (rule int_of_digits_str_nat)
  have dne: "ds \<noteq> []" unfolding ds_def by (rule str_nat_nonempty)
  have len: "int (length ds) = L" by (simp add: L_def)
  consider (A1) "e \<le> 0" "e + L > - 6" "e + L \<le> 0"
    | (A2) "e \<le> 0" "e + L > - 6" "0 < e + L" "e = 0"
    | (A3) "e \<le> 0" "e + L > - 6" "0 < e + L" "e < 0"
    | (B1) "\<not> (e \<le> 0 \<and> e + L > - 6)" "L = 1"
    | (B2) "\<not> (e \<le> 0 \<and> e + L > - 6)" "1 < L"
    using Lpos by linarith
  then show ?thesis
  proof cases
    case A1
    have s: "str_Decimal (Finite neg c e) =
        str_sign neg @ ''0'' @ (if True then CHR ''.'' # (replicate (nat (- (e + L))) CHR ''0'' @ ds) else []) @
          (if False then CHR ''E'' # str_signed 0 else [])"
      using A1 by (auto simp: str_Decimal.simps Let_def ds_def [symmetric] len dne)
    have d: "\<forall>x\<in>set (replicate (nat (- (e + L))) CHR ''0'' @ ds). is_digit x"
      using dig by (auto simp: is_digit_zero)
    have "\<forall>x\<in>set ''0''. is_digit x" by (simp add: is_digit_zero)
    from Decimal_of_str_shape [OF _ this d, of neg True False 0] A1 show ?thesis
      unfolding s
      by (simp add: int_of_digits_zero_cons int_of_digits_append_zeros val L_def)
  next
    case A2
    have s: "str_Decimal (Finite neg c e) =
        str_sign neg @ ds @ (if False then CHR ''.'' # [] else []) @
          (if False then CHR ''E'' # str_signed 0 else [])"
      using A2 by (auto simp: str_Decimal.simps Let_def ds_def [symmetric] len dne)
    note ne = dne
    from Decimal_of_str_shape [OF ne dig, of "[]" neg False False 0] A2 show ?thesis
      unfolding s by (simp add: val)
  next
    case A3
    have s: "str_Decimal (Finite neg c e) =
        str_sign neg @ take (nat (e + L)) ds @
          (if True then CHR ''.'' # drop (nat (e + L)) ds else []) @
          (if False then CHR ''E'' # str_signed 0 else [])"
      using A3 by (auto simp: str_Decimal.simps Let_def ds_def [symmetric] len dne)
    have ne: "take (nat (e + L)) ds \<noteq> []" using A3 Lpos by (auto simp: L_def)
    have d1: "\<forall>x\<in>set (take (nat (e + L)) ds). is_digit x" using dig by (meson in_set_takeD)
    have d2: "\<forall>x\<in>set (drop (nat (e + L)) ds). is_digit x" using dig by (meson in_set_dropD)
    from Decimal_of_str_shape [OF ne d1 d2, of neg True False 0] A3 show ?thesis
      unfolding s by (simp add: val L_def)
  next
    case B1
    then have ne1: "e + L \<noteq> 1" by linarith
    have s: "str_Decimal (Finite neg c e) =
        str_sign neg @ ds @ (if False then CHR ''.'' # [] else []) @
          (if True then CHR ''E'' # str_signed (e + L - 1) else [])"
      using B1 ne1 by (auto simp: str_Decimal.simps Let_def ds_def [symmetric] len dne)
    note ne = dne
    from Decimal_of_str_shape [OF ne dig, of "[]" neg False True "e + L - 1"] B1 show ?thesis
      unfolding s by (simp add: val)
  next
    case B2
    then have ne1: "e + L \<noteq> 1" by linarith
    have s: "str_Decimal (Finite neg c e) =
        str_sign neg @ take 1 ds @ (if True then CHR ''.'' # drop 1 ds else []) @
          (if True then CHR ''E'' # str_signed (e + L - 1) else [])"
      using B2 ne1 by (auto simp: str_Decimal.simps Let_def ds_def [symmetric] len dne)
    have ne: "take 1 ds \<noteq> []" using Lpos by (auto simp: L_def)
    have d1: "\<forall>x\<in>set (take 1 ds). is_digit x" using dig by (meson in_set_takeD)
    have d2: "\<forall>x\<in>set (drop 1 ds). is_digit x" using dig by (meson in_set_dropD)
    from Decimal_of_str_shape [OF ne d1 d2, of neg True True "e + L - 1"] B2 show ?thesis
      unfolding s by (simp add: val L_def)
  qed
qed

lemma ascii_lower_letters:
  "ascii_lower CHR ''I'' = CHR ''i''" "ascii_lower CHR ''N'' = CHR ''n''"
  "ascii_lower CHR ''n'' = CHR ''n''" "ascii_lower CHR ''f'' = CHR ''f''"
  "ascii_lower CHR ''i'' = CHR ''i''" "ascii_lower CHR ''t'' = CHR ''t''"
  "ascii_lower CHR ''y'' = CHR ''y''" "ascii_lower CHR ''a'' = CHR ''a''"
  "ascii_lower CHR ''s'' = CHR ''s''"
  by (simp_all add: ascii_lower_def of_char_eq_iff [where ?'a = nat, symmetric])

lemma int_of_digits_Nil: "int_of_digits [] = 0"
  by (simp add: int_of_digits_def)

lemma Decimal_of_str_Infinity: "Decimal_of_str (str_Decimal (Infinity neg)) = Inr (Infinity neg)"
proof -
  have pl: "plain (str_sign neg @ ''Infinity'')"
    by (simp add: plain_append plain_str_sign plain_Cons plain_Nil is_space_def)
  have ss: "split_sign (str_sign neg @ ''Infinity'') = (neg, ''Infinity'')"
    by (rule split_sign_str_sign) simp_all
  have "match_number ''Infinity'' = None"
    by (simp add: match_number_def lookahead_number_def is_digit_def)
  then have "Decimal_of_match neg ''Infinity'' = Inr (Infinity neg)"
    by (simp add: Decimal_of_match_def ascii_lower_letters)
  with Decimal_of_str_plain [OF pl ss] show ?thesis
    by (simp add: str_Decimal.simps)
qed

lemma map_lower_digits: "\<forall>c\<in>set s. is_digit c \<Longrightarrow> map ascii_lower s = s"
  by (rule map_idI) (simp add: is_digit_not_special(8))

lemma Decimal_of_str_NaN:
  "Decimal_of_str (str_Decimal (NaN neg signal diag)) = Inr (NaN neg signal diag)"
proof -
  define pay where "pay = (if diag = 0 then [] else str_nat diag)"
  define body where "body = (if signal then ''sNaN'' else ''NaN'') @ pay"
  have dig: "\<forall>c\<in>set pay. is_digit c"
    by (simp add: pay_def str_nat_digits)
  have val: "int_of_digits pay = diag"
    by (simp add: pay_def int_of_digits_str_nat int_of_digits_Nil)
  have "plain pay" using dig by (rule plain_digits)
  then have "plain body"
    by (simp add: body_def plain_append plain_Cons plain_Nil is_space_def)
  then have pl: "plain (str_sign neg @ body)"
    by (simp add: plain_append plain_str_sign)
  have ss: "split_sign (str_sign neg @ body) = (neg, body)"
    by (rule split_sign_str_sign) (simp_all add: body_def)
  have mn: "match_number body = None"
    by (simp add: match_number_def lookahead_number_def is_digit_def body_def)
  have lb: "map ascii_lower body = (if signal then ''snan'' else ''nan'') @ pay"
    by (simp add: body_def map_lower_digits [OF dig] ascii_lower_letters)
  have la: "list_all is_digit pay"
    using dig by (simp add: list_all_iff)
  have nan: "match_nan ((if signal then ''snan'' else ''nan'') @ pay) = Some (signal, pay)"
    by (simp add: match_nan_def la)
  have "Decimal_of_match neg body = Inr (NaN neg signal diag)"
    unfolding Decimal_of_match_def mn lb Let_def
    by (simp add: nan val)
  with Decimal_of_str_plain [OF pl ss] show ?thesis
    by (simp add: str_Decimal.simps body_def pay_def)
qed

lemma Decimal_of_str_str_Decimal: "Decimal_of_str (str_Decimal d) = Inr d"
  by (cases d) (simp_all only: Decimal_of_str_Finite Decimal_of_str_Infinity Decimal_of_str_NaN)

subsection \<open>Pushing and pulling a plan amount\<close>

text \<open>The texts of two amounts, computed.\<close>

lemma digit_chars:
  "digit_char 0 = CHR ''0''" "digit_char 1 = CHR ''1''" "digit_char 2 = CHR ''2''"
  "digit_char 3 = CHR ''3''" "digit_char 4 = CHR ''4''" "digit_char 5 = CHR ''5''"
  "digit_char 6 = CHR ''6''" "digit_char 7 = CHR ''7''" "digit_char 8 = CHR ''8''"
  "digit_char 9 = CHR ''9''" "digit_char (Suc 0) = CHR ''1''"
  unfolding digit_char_def
  by (simp_all add: of_char_eq_iff [where ?'a = nat, symmetric])

lemma str_Decimal_199_00: "str_Decimal (Finite False 19900 (- 2)) = ''199.00''"
proof -
  have "str_nat 19900 = ''19900''"
    by (simp add: str_nat.simps digit_chars)
  then show ?thesis
    by (simp add: str_Decimal.simps str_sign_def Let_def)
qed

lemma str_Decimal_199_0: "str_Decimal (Finite False 1990 (- 1)) = ''199.0''"
proof -
  have "str_nat 1990 = ''1990''"
    by (simp add: str_nat.simps digit_chars)
  then show ?thesis
    by (simp add: str_Decimal.simps str_sign_def Let_def)
qed

lemma Decimal_of_str_199_0: "Decimal_of_str ''199.0'' = Inr (Finite False 1990 (- 1))"
  using Decimal_of_str_str_Decimal [of "Finite False 1990 (- 1)"]
  by (simp add: str_Decimal_199_0)

lemma Decimal_of_str_199_00: "Decimal_of_str ''199.00'' = Inr (Finite False 19900 (- 2))"
  using Decimal_of_str_str_Decimal [of "Finite False 19900 (- 2)"]
  by (simp add: str_Decimal_199_00)

text \<open>
  C8 as stated fails in two ways.  A push of a plan that already has a remote identifier
  sends the name and the trial days only: the local amount \<^verbatim>\<open>250.00\<close> is never sent, and
  the pull that follows replaces it by the amount of the remote plan.  And a first push
  of the amount \<^verbatim>\<open>199.00\<close> to a remote service that answers with the amount text
  \<^verbatim>\<open>199.0\<close> leaves a local amount with one decimal place, not the amount pushed.
\<close>

theorem plan_amount_round_trip_counterexample:
  "openpay_id (example_plan\<lparr>Plan.amount := Finite False 25000 (- 2)\<rparr>) \<noteq> [] \<and>
   Plan_push example_fixed_env (example_plan\<lparr>Plan.amount := Finite False 25000 (- 2)\<rparr>) [] =
     (Inr (),
      example_plan\<lparr>Plan.amount := Finite False 25000 (- 2),
                   Plan.openpay_obj := Some example_fixed_plan\<rparr>,
      [PlanRetrieve ''plan1'', PlanSave example_fixed_plan]) \<and>
   Plan.amount
     (self_of (Plan_pull example_fixed_env
        (example_plan\<lparr>Plan.amount := Finite False 25000 (- 2),
                      Plan.openpay_obj := Some example_fixed_plan\<rparr>)
        [PlanRetrieve ''plan1'', PlanSave example_fixed_plan])) = Finite False 1990 (- 1) \<and>
   Plan.amount example_new_plan = Finite False 19900 (- 2) \<and>
   Plan_push example_fixed_env example_new_plan [] =
     (Inr (),
      example_new_plan
        \<lparr>openpay_id := ''plan1'', creation_date := Some (Datetime (Date 2017 3 1) 10 0 0 0 None),
         Plan.amount := Finite False 1990 (- 1), Plan.openpay_obj := Some example_fixed_plan\<rparr>,
      [PlanCreate ''Gold'' ''199.00'' ''unpaid'' 3 ''month'' 0 1, PlanRetrieve ''plan1''])"
  by (simp add: Plan_push_def Plan_pull_def Plan_retrieve_def then_run_def self_of_def
      example_fixed_env_def example_fixed_plan_def example_env_def example_plan_def
      example_new_plan_def example_stamp_def str_Decimal_199_00 Decimal_of_str_199_0)

text \<open>
  C8, amended.  For a Plan whose remote identifier is empty, \<^verbatim>\<open>push()\<close> sends
  \<^verbatim>\<open>str(amount)\<close> in the remote create call, and that text denotes the amount exactly:
  \<^verbatim>\<open>Decimal(str(d))\<close> is \<open>d\<close>, with its sign, digits and exponent.  When the create call
  returns a resource with an identifier and the lookup of the \<^verbatim>\<open>pull()\<close> inside \<^verbatim>\<open>push()\<close>
  returns a remote plan, the local amount becomes the \<^verbatim>\<open>Decimal\<close> parsed from the amount
  text of that plan (and stays as it was when the text does not parse); so it is the
  amount that was pushed whenever the remote plan carries the amount text that was sent.
  A \<^verbatim>\<open>push()\<close> that returns has gone through these steps.  A \<^verbatim>\<open>push()\<close> of a Plan that
  has a remote identifier makes only lookup and save calls and leaves the local amount
  as it is.
\<close>

theorem plan_amount_round_trip:
  "(\<forall>d. Decimal_of_str (str_Decimal d) = Inr d) \<and>
   (openpay_id pln = [] \<longrightarrow>
      prefix (log @ [PlanCreate (name pln) (str_Decimal (Plan.amount pln)) (status_after_retry pln) (retry_times pln) (repeat_unit pln) (trial_days pln) (repeat_every pln)]) (calls_of (Plan_push env pln log))) \<and>
   (\<forall>rp h.
      openpay_id pln = [] \<and> api_plan env log (PlanCreate (name pln) (str_Decimal (Plan.amount pln)) (status_after_retry pln) (retry_times pln) (repeat_unit pln) (trial_days pln) (repeat_every pln)) = Inr rp \<and> pl_id rp \<noteq> [] \<and>
      api_plan env (log @ [PlanCreate (name pln) (str_Decimal (Plan.amount pln)) (status_after_retry pln) (retry_times pln) (repeat_unit pln) (trial_days pln) (repeat_every pln)]) (PlanRetrieve (pl_id rp)) = Inr h \<longrightarrow>
      (\<forall>a. Decimal_of_str (pl_amount h) = Inr a \<longrightarrow> Plan.amount (self_of (Plan_push env pln log)) = a) \<and>
      (\<forall>e. Decimal_of_str (pl_amount h) = Inl e \<longrightarrow>
         raised (Plan_push env pln log) = Some e \<and> Plan.amount (self_of (Plan_push env pln log)) = Plan.amount pln) \<and>
      (pl_amount h = str_Decimal (Plan.amount pln) \<longrightarrow>
         Plan.amount (self_of (Plan_push env pln log)) = Plan.amount pln)) \<and>
   (openpay_id pln = [] \<and> raised (Plan_push env pln log) = None \<longrightarrow>
      (\<exists>rp h. api_plan env log (PlanCreate (name pln) (str_Decimal (Plan.amount pln)) (status_after_retry pln) (retry_times pln) (repeat_unit pln) (trial_days pln) (repeat_every pln)) = Inr rp \<and> pl_id rp \<noteq> [] \<and>
         api_plan env (log @ [PlanCreate (name pln) (str_Decimal (Plan.amount pln)) (status_after_retry pln) (retry_times pln) (repeat_unit pln) (trial_days pln) (repeat_every pln)]) (PlanRetrieve (pl_id rp)) = Inr h \<and>
         Decimal_of_str (pl_amount h) = Inr (Plan.amount (self_of (Plan_push env pln log))))) \<and>
   (openpay_id pln2 \<noteq> [] \<longrightarrow>
      Plan.amount (self_of (Plan_push env2 pln2 log2)) = Plan.amount pln2 \<and>
      (\<forall>c\<in>set (calls_of (Plan_push env2 pln2 log2)).
         c \<in> set log2 \<or> c = PlanRetrieve (openpay_id pln2) \<or> (\<exists>h. c = PlanSave h)))"
proof (intro conjI)
  show "\<forall>d. Decimal_of_str (str_Decimal d) = Inr d"
    by (simp add: Decimal_of_str_str_Decimal)
next
  show "openpay_id pln = [] \<longrightarrow> prefix (log @ [PlanCreate (name pln) (str_Decimal (Plan.amount pln)) (status_after_retry pln) (retry_times pln) (repeat_unit pln) (trial_days pln) (repeat_every pln)]) (calls_of (Plan_push env pln log))"
    using Plan_first_push [where pln = pln and env = env and log = log] by blast
next
  show "\<forall>rp h.
      openpay_id pln = [] \<and> api_plan env log (PlanCreate (name pln) (str_Decimal (Plan.amount pln)) (status_after_retry pln) (retry_times pln) (repeat_unit pln) (trial_days pln) (repeat_every pln)) = Inr rp \<and> pl_id rp \<noteq> [] \<and>
      api_plan env (log @ [PlanCreate (name pln) (str_Decimal (Plan.amount pln)) (status_after_retry pln) (retry_times pln) (repeat_unit pln) (trial_days pln) (repeat_every pln)]) (PlanRetrieve (pl_id rp)) = Inr h \<longrightarrow>
      (\<forall>a. Decimal_of_str (pl_amount h) = Inr a \<longrightarrow> Plan.amount (self_of (Plan_push env pln log)) = a) \<and>
      (\<forall>e. Decimal_of_str (pl_amount h) = Inl e \<longrightarrow>
         raised (Plan_push env pln log) = Some e \<and> Plan.amount (self_of (Plan_push env pln log)) = Plan.amount pln) \<and>
      (pl_amount h = str_Decimal (Plan.amount pln) \<longrightarrow>
         Plan.amount (self_of (Plan_push env pln log)) = Plan.amount pln)"
  proof (intro allI impI, elim conjE)
    fix rp h
    assume new: "openpay_id pln = []" and rp: "api_plan env log (PlanCreate (name pln) (str_Decimal (Plan.amount pln)) (status_after_retry pln) (retry_times pln) (repeat_unit pln) (trial_days pln) (repeat_every pln)) = Inr rp"
      and id: "pl_id rp \<noteq> []"
      and h: "api_plan env (log @ [PlanCreate (name pln) (str_Decimal (Plan.amount pln)) (status_after_retry pln) (retry_times pln) (repeat_unit pln) (trial_days pln) (repeat_every pln)]) (PlanRetrieve (pl_id rp)) = Inr h"
    have parsed: "Plan.amount (self_of (Plan_push env pln log)) = a" if "Decimal_of_str (pl_amount h) = Inr a" for a
      using new rp id h that
      by (simp add: Plan_push_def Plan_pull_def Plan_retrieve_def then_run_def self_of_def
          Let_def split: sum.splits)
    have failed: "raised (Plan_push env pln log) = Some e \<and> Plan.amount (self_of (Plan_push env pln log)) = Plan.amount pln"
      if "Decimal_of_str (pl_amount h) = Inl e" for e
      using new rp id h that
      by (simp add: Plan_push_def Plan_pull_def Plan_retrieve_def then_run_def self_of_def
          raised_def Let_def)
    have "Plan.amount (self_of (Plan_push env pln log)) = Plan.amount pln"
      if "pl_amount h = str_Decimal (Plan.amount pln)"
      using parsed [of "Plan.amount pln"] that by (simp add: Decimal_of_str_str_Decimal)
    with parsed failed
    show "(\<forall>a. Decimal_of_str (pl_amount h) = Inr a \<longrightarrow> Plan.amount (self_of (Plan_push env pln log)) = a) \<and>
      (\<forall>e. Decimal_of_str (pl_amount h) = Inl e \<longrightarrow>
         raised (Plan_push env pln log) = Some e \<and> Plan.amount (self_of (Plan_push env pln log)) = Plan.amount pln) \<and>
      (pl_amount h = str_Decimal (Plan.amount pln) \<longrightarrow>
         Plan.amount (self_of (Plan_push env pln log)) = Plan.amount pln)"
      by blast
  qed
next
  show "openpay_id pln = [] \<and> raised (Plan_push env pln log) = None \<longrightarrow>
      (\<exists>rp h. api_plan env log (PlanCreate (name pln) (str_Decimal (Plan.amount pln)) (status_after_retry pln) (retry_times pln) (repeat_unit pln) (trial_days pln) (repeat_every pln)) = Inr rp \<and> pl_id rp \<noteq> [] \<and>
         api_plan env (log @ [PlanCreate (name pln) (str_Decimal (Plan.amount pln)) (status_after_retry pln) (retry_times pln) (repeat_unit pln) (trial_days pln) (repeat_every pln)]) (PlanRetrieve (pl_id rp)) = Inr h \<and>
         Decimal_of_str (pl_amount h) = Inr (Plan.amount (self_of (Plan_push env pln log))))"
    by (auto simp: Plan_push_def Plan_pull_def Plan_retrieve_def then_run_def self_of_def
        raised_def Let_def split: sum.splits if_splits)
next
  show "openpay_id pln2 \<noteq> [] \<longrightarrow>
      Plan.amount (self_of (Plan_push env2 pln2 log2)) = Plan.amount pln2 \<and>
      (\<forall>c\<in>set (calls_of (Plan_push env2 pln2 log2)).
         c \<in> set log2 \<or> c = PlanRetrieve (openpay_id pln2) \<or> (\<exists>h. c = PlanSave h))"
    by (auto simp: Plan_push_def Plan_retrieve_def then_run_def self_of_def calls_of_def
        Let_def split: sum.splits option.splits)
qed

text \<open>
  The scenario of the specification: amount \<^verbatim>\<open>199.00\<close>, every 1 month, on a remote
  service that keeps what it is sent.  The text sent is \<^verbatim>\<open>199.00\<close> and the amount after
  the pull is \<^verbatim>\<open>199.00\<close>.
\<close>

theorem plan_amount_round_trip_witness:
  "openpay_id example_new_plan = [] \<and>
   Plan.amount example_new_plan = Finite False 19900 (- 2) \<and>
   repeat_every example_new_plan = 1 \<and> repeat_unit example_new_plan = ''month'' \<and>
   str_Decimal (Plan.amount example_new_plan) = ''199.00'' \<and>
   Plan.amount (self_of (Plan_push example_env example_new_plan [])) = Finite False 19900 (- 2) \<and>
   Plan.amount (self_of (Plan_push example_fixed_env example_plan [])) = Plan.amount example_plan"
proof -
  let ?h = "\<lparr>pl_id = ''plan1'', pl_name = ''Gold'', pl_amount = ''199.00'',
             pl_status_after_retry = ''unpaid'', pl_retry_times = 3,
             pl_repeat_unit = ''month'', pl_trial_days = 0, pl_repeat_every = 1,
             pl_creation_date = example_stamp\<rparr>"
  have new: "openpay_id example_new_plan = []"
    by (simp add: example_new_plan_def)
  have old: "openpay_id example_plan \<noteq> []"
    by (simp add: example_plan_def)
  have text199: "str_Decimal (Plan.amount example_new_plan) = ''199.00''"
    by (simp add: example_new_plan_def str_Decimal_199_00)
  have rp: "api_plan example_env []
      (PlanCreate (name example_new_plan) (str_Decimal (Plan.amount example_new_plan))
         (status_after_retry example_new_plan) (retry_times example_new_plan)
         (repeat_unit example_new_plan) (trial_days example_new_plan)
         (repeat_every example_new_plan)) = Inr ?h"
    by (simp add: str_Decimal_199_00 example_env_def example_api_plan_def example_new_plan_def)
  have id: "pl_id ?h \<noteq> []"
    by simp
  have h: "api_plan example_env
      ([] @ [PlanCreate (name example_new_plan) (str_Decimal (Plan.amount example_new_plan))
               (status_after_retry example_new_plan) (retry_times example_new_plan)
               (repeat_unit example_new_plan) (trial_days example_new_plan)
               (repeat_every example_new_plan)])
      (PlanRetrieve (pl_id ?h)) = Inr ?h"
    by (simp add: str_Decimal_199_00 example_env_def example_api_plan_def
        example_new_plan_def map_filter_simps)
  have same: "pl_amount ?h = str_Decimal (Plan.amount example_new_plan)"
    by (simp add: text199)
  note t = plan_amount_round_trip
    [where pln = example_new_plan and log = "[]" and env = example_env
       and ?pln2.0 = example_plan and ?env2.0 = example_fixed_env and ?log2.0 = "[]"]
  have a: "Plan.amount (self_of (Plan_push example_env example_new_plan [])) =
      Plan.amount example_new_plan"
    by (rule t [THEN conjunct2, THEN conjunct2, THEN conjunct1, rule_format,
          OF conjI [OF new conjI [OF rp conjI [OF id h]]],
          THEN conjunct2, THEN conjunct2, rule_format, OF same])
  have b: "Plan.amount (self_of (Plan_push example_fixed_env example_plan [])) =
      Plan.amount example_plan"
    by (rule t [THEN conjunct2, THEN conjunct2, THEN conjunct2, THEN conjunct2, rule_format,
          OF old, THEN conjunct1])
  from new text199 a b show ?thesis
    by (simp add: example_new_plan_def)
qed

end
